theory Spec2Isabelle
  imports Complex_Main
begin

section \<open>JavaScript values used by BlueBerryService\<close>

text \<open>
  A JavaScript string is a sequence of UTF-16 code units; it is modelled as the list of
  its code units. \<open>js\<close> embeds an ASCII literal of the source.
\<close>

type_synonym jsstring = "nat list"

definition js :: "string \<Rightarrow> jsstring" where
  "js s = map of_char s"

text \<open>
  A JavaScript number is a double. The model keeps \<open>NaN\<close> apart and takes every other
  number as the exact rational it denotes: rounding to 53 bits and overflow to
  \<open>Infinity\<close> are outside the model. Comparisons with \<open>NaN\<close> are false, and
  arithmetic on \<open>NaN\<close> gives \<open>NaN\<close>, as in the language.
\<close>

datatype number = NaN | Num rat

fun js_mul :: "number \<Rightarrow> number \<Rightarrow> number" where
  "js_mul (Num a) (Num b) = Num (a * b)"
| "js_mul _ _ = NaN"

fun js_add :: "number \<Rightarrow> number \<Rightarrow> number" where
  "js_add (Num a) (Num b) = Num (a + b)"
| "js_add _ _ = NaN"

fun js_sub :: "number \<Rightarrow> number \<Rightarrow> number" where
  "js_sub (Num a) (Num b) = Num (a - b)"
| "js_sub _ _ = NaN"

fun js_gt :: "number \<Rightarrow> number \<Rightarrow> bool" where
  "js_gt (Num a) (Num b) = (b < a)"
| "js_gt _ _ = False"

fun js_ge :: "number \<Rightarrow> number \<Rightarrow> bool" where
  "js_ge (Num a) (Num b) = (b \<le> a)"
| "js_ge _ _ = False"

fun js_lt :: "number \<Rightarrow> number \<Rightarrow> bool" where
  "js_lt (Num a) (Num b) = (a < b)"
| "js_lt _ _ = False"

fun js_le :: "number \<Rightarrow> number \<Rightarrow> bool" where
  "js_le (Num a) (Num b) = (a \<le> b)"
| "js_le _ _ = False"

text \<open>Strict equality \<open>===\<close> on numbers: \<open>NaN\<close> is not equal to itself.\<close>

fun js_eq :: "number \<Rightarrow> number \<Rightarrow> bool" where
  "js_eq (Num a) (Num b) = (a = b)"
| "js_eq _ _ = False"

subsection \<open>String primitives\<close>

text \<open>
  \<open>String.prototype.trim\<close> removes WhiteSpace and LineTerminator code points from both
  ends; the regular expression class \<open>\s\<close> is the same set.
\<close>

definition isWhiteSpace :: "nat \<Rightarrow> bool" where
  "isWhiteSpace c =
     (c \<in> set [9, 10, 11, 12, 13, 32, 160, 5760, 8232, 8233, 8239, 8287, 12288, 65279]
      \<or> (8192 \<le> c \<and> c \<le> 8202))"

definition trim :: "jsstring \<Rightarrow> jsstring" where
  "trim s = rev (dropWhile isWhiteSpace (rev (dropWhile isWhiteSpace s)))"

text \<open>The class \<open>\d\<close>: the ten ASCII digits.\<close>

definition isDigit :: "nat \<Rightarrow> bool" where
  "isDigit c = (48 \<le> c \<and> c \<le> 57)"

text \<open>The value of a string of ASCII digits, read in base ten.\<close>

definition digitsValue :: "jsstring \<Rightarrow> nat" where
  "digitsValue ds = foldl (\<lambda>acc c. 10 * acc + (c - 48)) 0 ds"

text \<open>
  \<open>toLowerCase\<close> on one code unit of the ASCII range, which is all the unit letter of a
  matched duration can be.
\<close>

definition toLowerCase :: "nat \<Rightarrow> nat" where
  "toLowerCase c = (if 65 \<le> c \<and> c \<le> 90 then c + 32 else c)"

text \<open>
  \<open>parseFloat\<close> reads the longest prefix that is a decimal literal and ignores the rest;
  without such a prefix the result is \<open>NaN\<close>. The source applies it to the first capture
  group of the duration pattern only, a non-empty string of digits and dots, so the
  literal is \<open>digits\<close>, \<open>digits . digits?\<close> or \<open>. digits\<close>: signs, exponents, leading
  blanks and \<open>Infinity\<close> cannot occur and are not modelled.
\<close>

definition parseFloat :: "jsstring \<Rightarrow> number" where
  "parseFloat s =
     (let ip = takeWhile isDigit s; rest = dropWhile isDigit s in
      case rest of
        [] \<Rightarrow> if ip = [] then NaN else Num (of_nat (digitsValue ip))
      | c # r \<Rightarrow>
          if c = 46 then
            (let fp = takeWhile isDigit r in
             if ip = [] \<and> fp = [] then NaN
             else Num (of_nat (digitsValue ip) + of_nat (digitsValue fp) / 10 ^ length fp))
          else if ip = [] then NaN else Num (of_nat (digitsValue ip)))"

section \<open>What the service shows, logs and runs\<close>

text \<open>
  The three violations of \<open>validateLockIntervals\<close>, in the order of its checks. The
  source carries them as the text of \<open>error\<close>:
  \<^item> \<open>Minimum lock interval exceeds 30 minutes limit\<close>,
  \<^item> \<open>Maximum lock interval exceeds 30 minutes limit\<close>,
  \<^item> \<open>Minimum lock interval (${minMs}ms) cannot be greater than maximum (${maxMs}ms)\<close>.
\<close>

datatype violation =
    MinExceedsLimit
  | MaxExceedsLimit
  | MinGreaterThanMax number number

text \<open>
  Every message of the source is one constructor, with the values its template
  interpolates as arguments, so that no rendering of numbers as text is needed.
\<close>

datatype message =
    WouldExecute jsstring "jsstring list"
      \<comment> \<open>\<open>[BlueBerry] Would execute: ${cmd} ${args.join(" ")}\<close>\<close>
  | InvalidDurationFormat jsstring
      \<comment> \<open>\<open>Invalid duration format: "${duration}". Using default 1 hour.\<close>\<close>
  | ErrorGettingKeyboardIds
      \<comment> \<open>\<open>Error getting keyboard IDs:\<close>\<close>
  | ErrorGettingMouseIds
      \<comment> \<open>\<open>Error getting mouse IDs:\<close>\<close>
  | LoginctlOutput jsstring
      \<comment> \<open>\<open>[BlueBerry] loginctl output: "${output}"\<close>\<close>
  | FoundSessionId jsstring
      \<comment> \<open>\<open>[BlueBerry] Found session ID: ${parts[0]}\<close>\<close>
  | NoSessionFound
      \<comment> \<open>\<open>[BlueBerry] No session found in loginctl output\<close>\<close>
  | ErrorExecutingLoginctl
      \<comment> \<open>\<open>[BlueBerry] Error executing loginctl: ${error}\<close>\<close>
  | CouldNotGetSessionId
      \<comment> \<open>\<open>Could not get session ID for logout\<close>\<close>
  | TerminatingSession jsstring
      \<comment> \<open>\<open>[BlueBerry] Terminating session: ${sessionId}\<close>\<close>
  | LockIntervalValidationFailed "violation option"
      \<comment> \<open>\<open>[BlueBerry] Lock interval validation failed: ${validation.error}\<close>\<close>
  | StoppedOnViolation "violation option"
      \<comment> \<open>\<open>BlueBerry stopped: ${validation.error}. Please check your settings.\<close>\<close>
  | DurationExpired jsstring
      \<comment> \<open>\<open>[BlueBerry] Duration of ${duration} expired. Logging out...\<close>\<close>
  | FinishedAfter jsstring
      \<comment> \<open>\<open>BlueBerry finished after ${duration}. Logged out.\<close>\<close>
  | NewCycleStarted
      \<comment> \<open>\<open>[BlueBerry] ===== New cycle started =====\<close>\<close>
  | NextLockIn number
      \<comment> \<open>\<open>[BlueBerry] Next lock in ${lockIntervalMinutes} minutes\<close>; the argument is
          \<open>lockIntervalMs\<close>, of which the source prints the minutes\<close>
  | FoundMice "nat list"
      \<comment> \<open>\<open>[BlueBerry] Found ${mouseIds.length} mouse(s): ${mouseIds.join(", ")}\<close>\<close>
  | FoundKeyboards "nat list"
      \<comment> \<open>\<open>[BlueBerry] Found ${keyboardIds.length} keyboard(s): ${keyboardIds.join(", ")}\<close>\<close>
  | SleepingFor number
      \<comment> \<open>\<open>[BlueBerry] Sleeping for ${lockIntervalMinutes} minutes...\<close>; the argument is
          \<open>lockIntervalMs\<close>\<close>
  | UnlockedFor number
      \<comment> \<open>\<open>[BlueBerry] Unlocked for ${this.UNLOCK_TIME_MS}ms...\<close>\<close>
  | CycleCompleted
      \<comment> \<open>\<open>[BlueBerry] ===== Cycle completed =====\<close>\<close>
  | MissingBinaries "jsstring list"
      \<comment> \<open>\<open>BlueBerry cannot start: Missing required system binaries: ${missing.join(", ")}.
          Please install them first.\<close>\<close>
  | SecretNotSet
      \<comment> \<open>\<open>BlueBerry cannot start: Secret is not set. Please set your password to continue.\<close>,
          with the buttons \<open>Set Secret Now\<close> and \<open>Cancel\<close>\<close>
  | SecretSetStartAgain
      \<comment> \<open>\<open>Secret set! Please start BlueBerry again.\<close>\<close>
  | CannotStartOnViolation "violation option"
      \<comment> \<open>\<open>BlueBerry cannot start: ${validation.error}. Please check your settings.\<close>\<close>
  | BannerLine
      \<comment> \<open>\<open>========================================\<close>\<close>
  | StartingDryRun
      \<comment> \<open>\<open>[BlueBerry] Starting in DRY-RUN mode\<close>\<close>
  | DurationIs jsstring
      \<comment> \<open>\<open>[BlueBerry] Duration: ${duration}\<close>\<close>
  | LockIntervalIs jsstring jsstring
      \<comment> \<open>\<open>[BlueBerry] Lock interval: ${lockIntervalMinStr}-${lockIntervalMaxStr}\<close>\<close>
  | InitialLock
      \<comment> \<open>\<open>[BlueBerry] Initial lock\<close>\<close>
  | Started bool jsstring jsstring jsstring
      \<comment> \<open>\<open>BlueBerry started${dryRun ? " (DRY-RUN)" : ""}. Will run for ${duration} with
          ${lockIntervalMinStr}-${lockIntervalMaxStr} intervals.\<close>\<close>
  | StopRequested
      \<comment> \<open>\<open>[BlueBerry] Stop requested\<close>\<close>
  | ClearingTimeouts nat
      \<comment> \<open>\<open>[BlueBerry] Clearing ${timeoutCount} active timeout(s)\<close>\<close>
  | AllTimeoutsCleared
      \<comment> \<open>\<open>[BlueBerry] All timeouts cleared\<close>\<close>
  | LoopTaskNotAwaited
      \<comment> \<open>\<open>[BlueBerry] Loop task is running but we're not waiting for it\<close>\<close>
  | StoppedSuccessfully
      \<comment> \<open>\<open>[BlueBerry] Stopped successfully\<close>\<close>
  | IsStopped
      \<comment> \<open>\<open>BlueBerry is stopped.\<close>\<close>
  | PasswordUpdated
      \<comment> \<open>\<open>Password updated securely.\<close>\<close>
  | SecretCleared
      \<comment> \<open>\<open>BlueBerry secret has been cleared.\<close>\<close>

text \<open>
  The observable effects, in the order the service performs them: log lines, notifications,
  spawned processes, timers set and cleared, writes to the secret store.
\<close>

datatype event =
    LogInfo message
  | LogError message
  | ShowError message
  | ShowInfo message
  | Spawn jsstring "jsstring list"
  | SetTimeout nat number
  | ClearTimeout nat
  | SecretStore jsstring
  | SecretDelete

section \<open>Durations and intervals\<close>

text \<open>
  The pattern \<open>/^([\d.]+)([hms])$/i\<close>: the whole string is a non-empty run of digits and
  dots followed by one of \<open>h\<close>, \<open>m\<close>, \<open>s\<close> in either case. The result holds the two
  capture groups.
\<close>

definition matchDuration :: "jsstring \<Rightarrow> (jsstring \<times> nat) option" where
  "matchDuration s =
     (if s = [] then None
      else
        (let body = butlast s; u = last s in
         if body \<noteq> [] \<and> list_all (\<lambda>c. isDigit c \<or> c = 46) body
            \<and> u \<in> set [104, 109, 115, 72, 77, 83]
         then Some (body, u) else None))"

text \<open>\<open>parseDuration\<close>: the milliseconds, and what it logged.\<close>

definition parseDuration :: "jsstring \<Rightarrow> number \<times> event list" where
  "parseDuration duration =
     (case matchDuration (trim duration) of
        None \<Rightarrow> (Num (60 * 60 * 1000), [LogError (InvalidDurationFormat duration)])
      | Some (num, u) \<Rightarrow>
          (let val = parseFloat num; unit = toLowerCase u in
           if unit = 104 then (js_mul (js_mul (js_mul val (Num 60)) (Num 60)) (Num 1000), [])
           else if unit = 109 then (js_mul (js_mul val (Num 60)) (Num 1000), [])
           else if unit = 115 then (js_mul val (Num 1000), [])
           else (Num (60 * 60 * 1000), [])))"

record validation =
  valid :: bool
  error :: "violation option"

definition MAX_INTERVAL_MS :: number where
  "MAX_INTERVAL_MS = Num (30 * 60 * 1000)"

definition validateLockIntervals :: "number \<Rightarrow> number \<Rightarrow> validation" where
  "validateLockIntervals minMs maxMs =
     (if js_gt minMs MAX_INTERVAL_MS then \<lparr>valid = False, error = Some MinExceedsLimit\<rparr>
      else if js_gt maxMs MAX_INTERVAL_MS then \<lparr>valid = False, error = Some MaxExceedsLimit\<rparr>
      else if js_gt minMs maxMs
        then \<lparr>valid = False, error = Some (MinGreaterThanMax minMs maxMs)\<rparr>
      else \<lparr>valid = True, error = None\<rparr>)"

text \<open>
  \<open>getRandomLockInterval\<close>; the first argument is the value \<open>Math.random()\<close> would
  return, which the source draws only when the bounds differ.
\<close>

definition getRandomLockInterval :: "rat \<Rightarrow> number \<Rightarrow> number \<Rightarrow> number" where
  "getRandomLockInterval r minMs maxMs =
     (if js_eq minMs maxMs then minMs
      else js_add (js_mul (Num r) (js_sub maxMs minMs)) minMs)"

section \<open>Device listing\<close>

text \<open>\<open>s.split(sep)\<close> for a separator of one code unit; the empty string gives one empty part.\<close>

fun str_split :: "nat \<Rightarrow> jsstring \<Rightarrow> jsstring list" where
  "str_split sep [] = [[]]"
| "str_split sep (c # cs) =
     (if c = sep then [] # str_split sep cs
      else (case str_split sep cs of [] \<Rightarrow> [[c]] | l # ls \<Rightarrow> (c # l) # ls))"

text \<open>\<open>line.includes(pat)\<close>: \<open>pat\<close> occurs at some position of \<open>line\<close>.\<close>

fun str_includes :: "jsstring \<Rightarrow> jsstring \<Rightarrow> bool" where
  "str_includes [] pat = (pat = [])"
| "str_includes (c # cs) pat = (take (length pat) (c # cs) = pat \<or> str_includes cs pat)"

text \<open>
  \<open>line.match(/id=(\d+)/)\<close>: the leftmost position where \<open>id=\<close> is followed by a digit;
  the capture group is the longest run of digits there.
\<close>

fun matchId :: "jsstring \<Rightarrow> jsstring option" where
  "matchId [] = None"
| "matchId (c # cs) =
     (let ds = takeWhile isDigit (drop 3 (c # cs)) in
      if take 3 (c # cs) = js ''id='' \<and> ds \<noteq> [] then Some ds else matchId cs)"

text \<open>
  \<open>parseInt\<close> on the capture group, a non-empty string of digits. Device ids are
  natural numbers in the model; beyond \<open>2^53\<close> the source would round.
\<close>

definition parseInt :: "jsstring \<Rightarrow> nat" where
  "parseInt ds = digitsValue ds"

text \<open>\<open>id.toString()\<close> for a natural number: its decimal digits.\<close>

fun toString :: "nat \<Rightarrow> jsstring" where
  "toString n = (if n < 10 then [48 + n] else toString (n div 10) @ [48 + n mod 10])"

declare toString.simps [simp del]

text \<open>The two loops over the lines of the listing, with the array they push to.\<close>

fun keyboardLines :: "jsstring list \<Rightarrow> nat list \<Rightarrow> nat list" where
  "keyboardLines [] keyboardIds = keyboardIds"
| "keyboardLines (line # lines) keyboardIds =
     (if str_includes line (js ''slave  keyboard'') \<and> str_includes line (js ''wired keyboard'')
      then (case matchId line of
              Some d \<Rightarrow> keyboardLines lines (keyboardIds @ [parseInt d])
            | None \<Rightarrow> keyboardLines lines keyboardIds)
      else keyboardLines lines keyboardIds)"

fun mouseLines :: "jsstring list \<Rightarrow> nat list \<Rightarrow> nat list" where
  "mouseLines [] mouseIds = mouseIds"
| "mouseLines (line # lines) mouseIds =
     (if str_includes line (js ''slave  pointer'')
         \<and> (str_includes line (js ''Mouse'') \<or> str_includes line (js ''mouse''))
      then (case matchId line of
              Some d \<Rightarrow> mouseLines lines (mouseIds @ [parseInt d])
            | None \<Rightarrow> mouseLines lines mouseIds)
      else mouseLines lines mouseIds)"

text \<open>The listing that \<open>execAndWaitForOutput\<close> returns for \<open>xinput list\<close> in dry-run mode.\<close>

definition mockListing :: jsstring where
  "mockListing =
     [9121] @ js '' Virtual core pointer                    '' @ [9] @ js ''id=2'' @ [9] @ js ''[master pointer  (3)]'' @ [10] @
     [9116] @ js ''   '' @ [8627] @ js '' Virtual core XTEST pointer              '' @ [9] @ js ''id=4'' @ [9] @ js ''[slave  pointer  (2)]'' @ [10] @
     [9116] @ js ''   '' @ [8627] @ js '' Logitech USB Mouse                       '' @ [9] @ js ''id=9'' @ [9] @ js ''[slave  pointer  (2)]'' @ [10] @
     [9123] @ js '' Virtual core keyboard                   '' @ [9] @ js ''id=3'' @ [9] @ js ''[master keyboard (2)]'' @ [10] @
     js ''    '' @ [8627] @ js '' Virtual core XTEST keyboard             '' @ [9] @ js ''id=5'' @ [9] @ js ''[slave  keyboard (3)]'' @ [10] @
     js ''    '' @ [8627] @ js '' AT Translated Set 2 wired keyboard      '' @ [9] @ js ''id=10'' @ [9] @ js ''[slave  keyboard (3)]''"

section \<open>The service\<close>

text \<open>
  What the service reads from outside during one uninterrupted run of its code: the
  settings under \<open>blueberry\<close> (absent ones take the default of the \<open>??\<close>), the clock,
  the value \<open>Math.random()\<close> returns, how spawned processes end, and what the operator
  answers to a prompt.
\<close>

record env =
  cfgDryRun :: "bool option"
  cfgDuration :: "jsstring option"
  cfgLockIntervalMin :: "jsstring option"
  cfgLockIntervalMax :: "jsstring option"
  now :: int
  random :: rat
  spawnFails :: "jsstring \<Rightarrow> jsstring list \<Rightarrow> bool"
    \<comment> \<open>the child emits \<open>error\<close>: \<open>runCommandAsync\<close> rejects\<close>
  stdoutOf :: "jsstring \<Rightarrow> jsstring list \<Rightarrow> jsstring option"
    \<comment> \<open>the standard output on exit code 0; \<open>None\<close> when \<open>execAndWaitForOutput\<close> rejects\<close>
  promptChoice :: "jsstring option"
    \<comment> \<open>the button chosen in \<open>showErrorMessage\<close>, if any\<close>
  inputBox :: "jsstring option"
    \<comment> \<open>what \<open>showInputBox\<close> resolves to\<close>

text \<open>
  The code that runs when a sleep ends, with the local variables it still uses:
  after the locked hold \<open>secret\<close>, \<open>dryRun\<close>, \<open>mouseIds\<close>, \<open>keyboardIds\<close>; after the
  unlocked hold \<open>dryRun\<close>, \<open>mouseIds\<close>, \<open>keyboardIds\<close>.
\<close>

datatype cont =
    AfterLockHold jsstring bool "nat list" "nat list"
  | AfterUnlockHold bool "nat list" "nat list"

text \<open>
  The fields of the class (\<open>activeTimeouts\<close> in insertion order, as a \<open>Set\<close> iterates),
  the stored secret, the timers of the runtime with the code each one resumes, the
  sleeps whose promise has been resolved, and the effects so far.
\<close>

record state =
  active :: bool
  currentLoopTask :: "nat option"
  requiredBinariesChecked :: bool
  activeTimeouts :: "nat list"
  startTime :: int
  secretStorage :: "jsstring option"
  timers :: "(nat \<times> cont) list"
  nextTimer :: nat
  nextTask :: nat
  resolved :: "nat list"
  trace :: "event list"

definition LOCK_CMD :: jsstring where "LOCK_CMD = js ''ft_lock''"
definition XDOTOOL_CMD :: jsstring where "XDOTOOL_CMD = js ''xdotool''"
definition XSET_CMD :: jsstring where "XSET_CMD = js ''xset''"
definition XINPUT_CMD :: jsstring where "XINPUT_CMD = js ''xinput''"
definition LOGINCTL_CMD :: jsstring where "LOGINCTL_CMD = js ''loginctl''"

definition REQUIRED_BINARIES :: "jsstring list" where
  "REQUIRED_BINARIES = [js ''ft_lock'', js ''xdotool'', js ''xset'', js ''xinput'', js ''loginctl'']"

definition UNLOCK_TIME_MS :: number where
  "UNLOCK_TIME_MS = Num 500"

definition emit :: "event list \<Rightarrow> state \<Rightarrow> state" where
  "emit evs s = s\<lparr>trace := trace s @ evs\<rparr>"

definition logCommand :: "jsstring \<Rightarrow> jsstring list \<Rightarrow> state \<Rightarrow> state" where
  "logCommand cmd args s = emit [LogInfo (WouldExecute cmd args)] s"

definition isDryRun :: "env \<Rightarrow> bool" where
  "isDryRun e = (case cfgDryRun e of None \<Rightarrow> False | Some b \<Rightarrow> b)"

text \<open>The three string settings, as \<open>config.get<string>(key) ?? default\<close> reads them.\<close>

definition getDuration :: "env \<Rightarrow> jsstring" where
  "getDuration e = (case cfgDuration e of None \<Rightarrow> js ''1h'' | Some d \<Rightarrow> d)"

definition getLockIntervalMin :: "env \<Rightarrow> jsstring" where
  "getLockIntervalMin e = (case cfgLockIntervalMin e of None \<Rightarrow> js ''10m'' | Some d \<Rightarrow> d)"

definition getLockIntervalMax :: "env \<Rightarrow> jsstring" where
  "getLockIntervalMax e = (case cfgLockIntervalMax e of None \<Rightarrow> js ''20m'' | Some d \<Rightarrow> d)"

text \<open>
  \<open>sleep(ms)\<close>: a timer is set and entered in \<open>activeTimeouts\<close>; the caller is suspended,
  and \<open>k\<close> is what it does once the promise resolves.
\<close>

definition sleep :: "number \<Rightarrow> cont \<Rightarrow> state \<Rightarrow> state" where
  "sleep ms k s =
     s\<lparr>timers := timers s @ [(nextTimer s, k)],
       activeTimeouts :=
         (if nextTimer s \<in> set (activeTimeouts s) then activeTimeouts s
          else activeTimeouts s @ [nextTimer s]),
       nextTimer := Suc (nextTimer s),
       trace := trace s @ [SetTimeout (nextTimer s) ms]\<rparr>"

text \<open>
  A promise that rejects is \<open>Inl\<close> of the state reached, one that resolves is \<open>Inr\<close>.
  \<open>settled\<close> is the state either way: what \<open>void\<close> and an empty \<open>catch\<close> leave.
\<close>

definition settled :: "state + state \<Rightarrow> state" where
  "settled r = (case r of Inl s \<Rightarrow> s | Inr s \<Rightarrow> s)"

definition runCommandAsync :: "env \<Rightarrow> jsstring \<Rightarrow> jsstring list \<Rightarrow> state \<Rightarrow> state + state" where
  "runCommandAsync e cmd args s =
     (if isDryRun e then Inr (logCommand cmd args s)
      else if spawnFails e cmd args then Inl (emit [Spawn cmd args] s)
      else Inr (emit [Spawn cmd args] s))"

definition execAndWaitForOutput ::
  "env \<Rightarrow> jsstring \<Rightarrow> jsstring list \<Rightarrow> state \<Rightarrow> jsstring option \<times> state" where
  "execAndWaitForOutput e cmd args s =
     (if isDryRun e then
        (if cmd = XINPUT_CMD \<and> take 1 args = [js ''list'']
           then (Some mockListing, logCommand cmd args s)
         else if cmd = LOGINCTL_CMD \<and> take 1 args = [js ''list-sessions'']
                 \<and> take 1 (drop 1 args) = [js ''--no-legend'']
           then (Some (js ''c54 103457 abennar seat0''), logCommand cmd args s)
         else (Some [], logCommand cmd args s))
      else (stdoutOf e cmd args, emit [Spawn cmd args] s))"

definition checkBinaryExists :: "env \<Rightarrow> jsstring \<Rightarrow> state \<Rightarrow> bool \<times> state" where
  "checkBinaryExists e binaryName s =
     (if isDryRun e then (True, logCommand (js ''which'') [binaryName] s)
      else (case execAndWaitForOutput e (js ''which'') [binaryName] s of
              (Some result, s') \<Rightarrow> (0 < length (trim result), s')
            | (None, s') \<Rightarrow> (False, s')))"

text \<open>The loop of \<open>checkRequiredBinaries\<close>; the result is \<open>missing\<close>.\<close>

fun checkBinaries :: "env \<Rightarrow> jsstring list \<Rightarrow> jsstring list \<Rightarrow> state \<Rightarrow> jsstring list \<times> state" where
  "checkBinaries e [] missing s = (missing, s)"
| "checkBinaries e (binary # rest) missing s =
     (case checkBinaryExists e binary s of
        (True, s') \<Rightarrow> checkBinaries e rest missing s'
      | (False, s') \<Rightarrow> checkBinaries e rest (missing @ [binary]) s')"

definition checkRequiredBinaries :: "env \<Rightarrow> state \<Rightarrow> jsstring list \<times> state" where
  "checkRequiredBinaries e s = checkBinaries e REQUIRED_BINARIES [] s"

fun disableInputDevices :: "env \<Rightarrow> nat list \<Rightarrow> state \<Rightarrow> state" where
  "disableInputDevices e [] s = s"
| "disableInputDevices e (i # deviceIds) s =
     disableInputDevices e deviceIds
       (settled (runCommandAsync e XINPUT_CMD [js ''disable'', toString i] s))"

fun enableInputDevices :: "env \<Rightarrow> nat list \<Rightarrow> state \<Rightarrow> state" where
  "enableInputDevices e [] s = s"
| "enableInputDevices e (i # deviceIds) s =
     enableInputDevices e deviceIds
       (settled (runCommandAsync e XINPUT_CMD [js ''enable'', toString i] s))"

definition getKeyboardIds :: "env \<Rightarrow> state \<Rightarrow> nat list \<times> state" where
  "getKeyboardIds e s =
     (case execAndWaitForOutput e XINPUT_CMD [js ''list''] s of
        (Some output, s') \<Rightarrow> (keyboardLines (str_split 10 output) [], s')
      | (None, s') \<Rightarrow> ([], emit [LogError ErrorGettingKeyboardIds] s'))"

definition getMouseIds :: "env \<Rightarrow> state \<Rightarrow> nat list \<times> state" where
  "getMouseIds e s =
     (case execAndWaitForOutput e XINPUT_CMD [js ''list''] s of
        (Some output, s') \<Rightarrow> (mouseLines (str_split 10 output) [], s')
      | (None, s') \<Rightarrow> ([], emit [LogError ErrorGettingMouseIds] s'))"

text \<open>
  \<open>(await this.secretStorage.get("blueberry-secret"))?.trim()\<close>: nothing when no secret
  is stored, the trimmed secret otherwise.
\<close>

definition getSecret :: "state \<Rightarrow> jsstring option" where
  "getSecret s = map_option trim (secretStorage s)"

text \<open>
  \<open>getCurrentSessionId\<close>: the loop over the lines of the \<open>loginctl\<close> output. A line
  that is not blank after \<open>trim\<close> has a non-empty first part under \<open>split(/\s+/)\<close>, the
  code units before its first white space.
\<close>

fun firstSession :: "jsstring list \<Rightarrow> state \<Rightarrow> jsstring option \<times> state" where
  "firstSession [] s = (None, emit [LogError NoSessionFound] s)"
| "firstSession (line # lines) s =
     (let trimmed = trim line in
      if trimmed \<noteq> [] then
        (let part0 = takeWhile (\<lambda>c. \<not> isWhiteSpace c) trimmed in
         (Some part0, emit [LogInfo (FoundSessionId part0)] s))
      else firstSession lines s)"

definition getCurrentSessionId :: "env \<Rightarrow> state \<Rightarrow> jsstring option \<times> state" where
  "getCurrentSessionId e s =
     (case execAndWaitForOutput e LOGINCTL_CMD [js ''list-sessions'', js ''--no-legend''] s of
        (Some output, s') \<Rightarrow>
          firstSession (str_split 10 output) (emit [LogInfo (LoginctlOutput output)] s')
      | (None, s') \<Rightarrow> (None, emit [LogError ErrorExecutingLoginctl] s'))"

definition terminateSession :: "env \<Rightarrow> state \<Rightarrow> state + state" where
  "terminateSession e s =
     (case getCurrentSessionId e s of
        (None, s') \<Rightarrow> Inr (emit [LogError CouldNotGetSessionId] s')
      | (Some sessionId, s') \<Rightarrow>
          if sessionId = [] then Inr (emit [LogError CouldNotGetSessionId] s')
          else runCommandAsync e LOGINCTL_CMD [js ''terminate-session'', sessionId]
                 (emit [LogInfo (TerminatingSession sessionId)] s'))"

definition hasTimeExpired :: "env \<Rightarrow> state \<Rightarrow> number \<Rightarrow> bool" where
  "hasTimeExpired e s durationMs = js_ge (Num (of_int (now e - startTime s))) durationMs"

text \<open>\<open>clearTimeout\<close>: the timer leaves the runtime and its callback never runs.\<close>

definition clearTimeout :: "nat \<Rightarrow> state \<Rightarrow> state" where
  "clearTimeout t s =
     s\<lparr>timers := filter (\<lambda>(i, k). i \<noteq> t) (timers s), trace := trace s @ [ClearTimeout t]\<rparr>"

fun clearTimeouts :: "nat list \<Rightarrow> state \<Rightarrow> state" where
  "clearTimeouts [] s = s"
| "clearTimeouts (timeoutId # rest) s = clearTimeouts rest (clearTimeout timeoutId s)"

definition stop :: "state \<Rightarrow> state" where
  "stop s =
     (let s1 = (emit [LogInfo StopRequested] s)\<lparr>active := False\<rparr>;
          timeoutCount = length (activeTimeouts s1);
          s2 = emit [LogInfo (ClearingTimeouts timeoutCount)] s1;
          s3 = clearTimeouts (activeTimeouts s2) s2;
          s4 = emit [LogInfo AllTimeoutsCleared] (s3\<lparr>activeTimeouts := []\<rparr>);
          s5 = (case currentLoopTask s4 of
                  None \<Rightarrow> s4
                | Some p \<Rightarrow> (emit [LogInfo LoopTaskNotAwaited] s4)\<lparr>currentLoopTask := None\<rparr>)
      in emit [LogInfo StoppedSuccessfully, ShowInfo IsStopped] s5)"

definition dispose :: "state \<Rightarrow> state" where
  "dispose s = stop s"

text \<open>
  \<open>loopTask\<close> is suspended only in its two calls of \<open>sleep\<close>, so it is three pieces of
  code, each run without interruption: from the call to the first sleep, from there to
  the second, and from there to the end, where the next \<open>loopTask\<close> is called.
  Every other \<open>await\<close> is taken as completing within the piece.
\<close>

definition loopTask :: "env \<Rightarrow> state \<Rightarrow> state + state" where
  "loopTask e s =
     (case getSecret s of
        None \<Rightarrow> Inr s
      | Some secret \<Rightarrow>
          if secret = [] \<or> \<not> active s then Inr s
          else
            (let dryRun = isDryRun e;
                 duration = getDuration e;
                 (durationMs, log1) = parseDuration duration;
                 lockIntervalMinStr = getLockIntervalMin e;
                 lockIntervalMaxStr = getLockIntervalMax e;
                 (lockIntervalMinMs, log2) = parseDuration lockIntervalMinStr;
                 (lockIntervalMaxMs, log3) = parseDuration lockIntervalMaxStr;
                 s1 = emit (log1 @ log2 @ log3) s;
                 validation = validateLockIntervals lockIntervalMinMs lockIntervalMaxMs
             in
             if \<not> valid validation then
               Inr (emit [ShowError (StoppedOnViolation (error validation))]
                     (stop (emit [LogError (LockIntervalValidationFailed (error validation))] s1)))
             else if hasTimeExpired e s1 durationMs then
               (case terminateSession e (emit [LogInfo (DurationExpired duration)] s1) of
                  Inl s2 \<Rightarrow> Inl s2
                | Inr s2 \<Rightarrow> Inr (emit [ShowInfo (FinishedAfter duration)] (stop s2)))
             else
               (let lockIntervalMs =
                      getRandomLockInterval (random e) lockIntervalMinMs lockIntervalMaxMs;
                    s2 = (if dryRun
                          then emit [LogInfo NewCycleStarted, LogInfo (NextLockIn lockIntervalMs)] s1
                          else s1);
                    (mouseIds, s3) = getMouseIds e s2;
                    (keyboardIds, s4) = getKeyboardIds e s3;
                    s5 = (if dryRun
                          then emit [LogInfo (FoundMice mouseIds),
                                     LogInfo (FoundKeyboards keyboardIds)] s4
                          else s4)
                in
                case runCommandAsync e LOCK_CMD [] s5 of
                  Inl s6 \<Rightarrow> Inl s6
                | Inr s6 \<Rightarrow>
                    (let s7 = settled (runCommandAsync e XSET_CMD
                                         [js ''dpms'', js ''force'', js ''off''] s6);
                         s8 = (if dryRun then emit [LogInfo (SleepingFor lockIntervalMs)] s7
                               else s7)
                     in Inr (sleep lockIntervalMs
                               (AfterLockHold secret dryRun mouseIds keyboardIds) s8)))))"

text \<open>From the end of the locked hold to the second sleep.\<close>

definition afterLockHold ::
  "env \<Rightarrow> jsstring \<Rightarrow> bool \<Rightarrow> nat list \<Rightarrow> nat list \<Rightarrow> state \<Rightarrow> state + state" where
  "afterLockHold e secret dryRun mouseIds keyboardIds s =
     (if \<not> active s then Inr s
      else
        (let s1 = settled (runCommandAsync e XSET_CMD [js ''dpms'', js ''force'', js ''off''] s);
             s2 = disableInputDevices e mouseIds s1;
             s3 = disableInputDevices e keyboardIds s2
         in
         case runCommandAsync e LOCK_CMD [] s3 of
           Inl s4 \<Rightarrow> Inl s4
         | Inr s4 \<Rightarrow>
             (case runCommandAsync e XDOTOOL_CMD [js ''type'', secret] s4 of
                Inl s5 \<Rightarrow> Inl s5
              | Inr s5 \<Rightarrow>
                  (let s6 = settled (runCommandAsync e XSET_CMD
                                       [js ''dpms'', js ''force'', js ''off''] s5)
                   in
                   case runCommandAsync e XDOTOOL_CMD [js ''key'', js ''Return''] s6 of
                     Inl s7 \<Rightarrow> Inl s7
                   | Inr s7 \<Rightarrow>
                       (let s8 = settled (runCommandAsync e XSET_CMD
                                            [js ''dpms'', js ''force'', js ''off''] s7);
                            s9 = (if dryRun then emit [LogInfo (UnlockedFor UNLOCK_TIME_MS)] s8
                                  else s8)
                        in Inr (sleep UNLOCK_TIME_MS
                                  (AfterUnlockHold dryRun mouseIds keyboardIds) s9))))))"

text \<open>
  From the end of the unlocked hold to the end. The call \<open>this.loopTask()\<close> returns its
  promise at the first \<open>await\<close> of the callee, so \<open>currentLoopTask\<close> is assigned before
  the body of the next cycle runs.
\<close>

definition afterUnlockHold ::
  "env \<Rightarrow> bool \<Rightarrow> nat list \<Rightarrow> nat list \<Rightarrow> state \<Rightarrow> state + state" where
  "afterUnlockHold e dryRun mouseIds keyboardIds s =
     (if \<not> active s then Inr s
      else
        (let s1 = settled (runCommandAsync e XSET_CMD [js ''dpms'', js ''force'', js ''off''] s);
             s2 = enableInputDevices e mouseIds s1;
             s3 = enableInputDevices e keyboardIds s2;
             s4 = (if dryRun then emit [LogInfo CycleCompleted] s3 else s3)
         in
         if active s4
         then loopTask e (s4\<lparr>currentLoopTask := Some (nextTask s4), nextTask := Suc (nextTask s4)\<rparr>)
         else Inr s4))"

definition resume :: "env \<Rightarrow> cont \<Rightarrow> state \<Rightarrow> state + state" where
  "resume e k s =
     (case k of
        AfterLockHold secret dryRun mouseIds keyboardIds \<Rightarrow>
          afterLockHold e secret dryRun mouseIds keyboardIds s
      | AfterUnlockHold dryRun mouseIds keyboardIds \<Rightarrow>
          afterUnlockHold e dryRun mouseIds keyboardIds s)"

text \<open>
  The callback of the timer that \<open>sleep\<close> set: the timer has left the runtime, it is
  deleted from \<open>activeTimeouts\<close>, the promise resolves and the suspended code goes on.
  A timer that is not pending, because it fired or was cleared, does nothing.
\<close>

definition fire :: "env \<Rightarrow> nat \<Rightarrow> state \<Rightarrow> state + state" where
  "fire e t s =
     (case map_of (timers s) t of
        None \<Rightarrow> Inr s
      | Some k \<Rightarrow>
          resume e k
            (s\<lparr>timers := filter (\<lambda>(i, k). i \<noteq> t) (timers s),
               activeTimeouts := removeAll t (activeTimeouts s),
               resolved := resolved s @ [t]\<rparr>))"

definition setSecret :: "env \<Rightarrow> state \<Rightarrow> state" where
  "setSecret e s =
     (case inputBox e of
        None \<Rightarrow> s
      | Some pw \<Rightarrow>
          if pw = [] then s
          else (emit [SecretStore (trim pw), ShowInfo PasswordUpdated] s)
                 \<lparr>secretStorage := Some (trim pw)\<rparr>)"

definition clearSecret :: "state \<Rightarrow> state" where
  "clearSecret s = (emit [SecretDelete, ShowInfo SecretCleared] s)\<lparr>secretStorage := None\<rparr>"

text \<open>\<open>start\<close>, from \<open>if (!this.active)\<close> on.\<close>

definition startLoop :: "env \<Rightarrow> bool \<Rightarrow> state \<Rightarrow> state + state" where
  "startLoop e dryRun s =
     (if active s then Inr s
      else
        (let s1 = s\<lparr>active := True, startTime := now e\<rparr>;
             duration = getDuration e;
             lockIntervalMinStr = getLockIntervalMin e;
             lockIntervalMaxStr = getLockIntervalMax e;
             (lockIntervalMinMs, log2) = parseDuration lockIntervalMinStr;
             (lockIntervalMaxMs, log3) = parseDuration lockIntervalMaxStr;
             s2 = emit (log2 @ log3) s1;
             validation = validateLockIntervals lockIntervalMinMs lockIntervalMaxMs
         in
         if \<not> valid validation
         then Inr (emit [ShowError (CannotStartOnViolation (error validation))] s2)
         else
           (let s3 = (if dryRun
                      then emit [LogInfo BannerLine, LogInfo StartingDryRun,
                                 LogInfo (DurationIs duration),
                                 LogInfo (LockIntervalIs lockIntervalMinStr lockIntervalMaxStr),
                                 LogInfo BannerLine, LogInfo InitialLock] s2
                      else s2)
            in
            case runCommandAsync e LOCK_CMD [] s3 of
              Inl s4 \<Rightarrow> Inl s4
            | Inr s4 \<Rightarrow>
                loopTask e
                  (emit [ShowInfo (Started dryRun duration lockIntervalMinStr lockIntervalMaxStr)]
                     (s4\<lparr>currentLoopTask := Some (nextTask s4),
                         nextTask := Suc (nextTask s4)\<rparr>)))))"

text \<open>\<open>start\<close>, from the check of the secret on.\<close>

definition startWithSecret :: "env \<Rightarrow> bool \<Rightarrow> state \<Rightarrow> state + state" where
  "startWithSecret e dryRun s =
     (let secret = getSecret s in
      if secret = None \<or> secret = Some [] then
        (let s1 = emit [ShowError SecretNotSet] s in
         if promptChoice e = Some (js ''Set Secret Now'')
         then Inr (emit [ShowInfo SecretSetStartAgain] (setSecret e s1))
         else Inr s1)
      else startLoop e dryRun s)"

definition start :: "env \<Rightarrow> state \<Rightarrow> state + state" where
  "start e s =
     (let dryRun = isDryRun e in
      if \<not> requiredBinariesChecked s then
        (case checkRequiredBinaries e s of
           (missing, s1) \<Rightarrow>
             if missing \<noteq> [] \<and> \<not> dryRun
             then Inr (emit [ShowError (MissingBinaries missing)] s1)
             else startWithSecret e dryRun (s1\<lparr>requiredBinariesChecked := True\<rparr>))
      else startWithSecret e dryRun s)"

text \<open>A new instance of the class, with nothing stored, no timer and no effect yet.\<close>

definition initial :: state where
  "initial =
     \<lparr>active = False, currentLoopTask = None, requiredBinariesChecked = False,
      activeTimeouts = [], startTime = 0, secretStorage = None, timers = [],
      nextTimer = 0, nextTask = 0, resolved = [], trace = []\<rparr>"

section \<open>Observing a run\<close>

text \<open>
  The definitions of this section are not code of the service: they name what a run
  leaves behind, so that the properties below can speak about it. A command is what the
  service runs, or in dry-run mode logs as \<open>Would execute\<close>; \<open>commands\<close> lists the commands
  of a trace in order, \<open>lockActions\<close> those of the session-lock program, \<open>replays\<close> those
  of the text-injection program, and \<open>since s s'\<close> is what \<open>s'\<close> has added to the trace
  of \<open>s\<close>. The others are the results and the events of the helpers of the service,
  which do not depend on the state they start from.
\<close>

definition cmdEvent :: "env \<Rightarrow> jsstring \<Rightarrow> jsstring list \<Rightarrow> event" where
  "cmdEvent e cmd args = (if isDryRun e then LogInfo (WouldExecute cmd args) else Spawn cmd args)"

definition execOutput :: "env \<Rightarrow> jsstring \<Rightarrow> jsstring list \<Rightarrow> jsstring option" where
  "execOutput e cmd args = fst (execAndWaitForOutput e cmd args initial)"

definition binaryExists :: "env \<Rightarrow> jsstring \<Rightarrow> bool" where
  "binaryExists e b = fst (checkBinaryExists e b initial)"

definition commandOf :: "event \<Rightarrow> (jsstring \<times> jsstring list) option" where
  "commandOf ev =
     (case ev of
        Spawn cmd args \<Rightarrow> Some (cmd, args)
      | LogInfo m \<Rightarrow> (case m of WouldExecute cmd args \<Rightarrow> Some (cmd, args) | _ \<Rightarrow> None)
      | _ \<Rightarrow> None)"

fun commands :: "event list \<Rightarrow> (jsstring \<times> jsstring list) list" where
  "commands [] = []"
| "commands (ev # evs) =
     (case commandOf ev of None \<Rightarrow> commands evs | Some ca \<Rightarrow> ca # commands evs)"

definition stopEvents :: "state \<Rightarrow> event list" where
  "stopEvents s =
     [LogInfo StopRequested, LogInfo (ClearingTimeouts (length (activeTimeouts s)))]
     @ map ClearTimeout (activeTimeouts s)
     @ [LogInfo AllTimeoutsCleared]
     @ (case currentLoopTask s of None \<Rightarrow> [] | Some p \<Rightarrow> [LogInfo LoopTaskNotAwaited])
     @ [LogInfo StoppedSuccessfully, ShowInfo IsStopped]"

definition replays :: "event list \<Rightarrow> (jsstring \<times> jsstring list) list" where
  "replays evs = filter (\<lambda>ca. fst ca = XDOTOOL_CMD) (commands evs)"

definition lockActions :: "event list \<Rightarrow> (jsstring \<times> jsstring list) list" where
  "lockActions evs = filter (\<lambda>ca. fst ca = LOCK_CMD) (commands evs)"

definition since :: "state \<Rightarrow> state \<Rightarrow> event list" where
  "since s s' = drop (length (trace s)) (trace s')"

definition mouseIdsOf :: "env \<Rightarrow> nat list" where
  "mouseIdsOf e = fst (getMouseIds e initial)"

definition keyboardIdsOf :: "env \<Rightarrow> nat list" where
  "keyboardIdsOf e = fst (getKeyboardIds e initial)"

definition listingEvents :: "env \<Rightarrow> message \<Rightarrow> event list" where
  "listingEvents e m =
     cmdEvent e XINPUT_CMD [js ''list'']
     # (case execOutput e XINPUT_CMD [js ''list''] of None \<Rightarrow> [LogError m] | Some out \<Rightarrow> [])"

definition sessionEvents :: "env \<Rightarrow> event list" where
  "sessionEvents e = trace (settled (terminateSession e initial))"

definition sessionRejects :: "env \<Rightarrow> bool" where
  "sessionRejects e = isl (terminateSession e initial)"

text \<open>
  A decimal number as the specification means it: digits with an optional fraction, or a
  fraction alone.
\<close>

definition wellFormedDecimal :: "jsstring \<Rightarrow> bool" where
  "wellFormedDecimal n =
     (let ip = takeWhile isDigit n; rest = dropWhile isDigit n in
      case rest of
        [] \<Rightarrow> ip \<noteq> []
      | c # fp \<Rightarrow> c = 46 \<and> list_all isDigit fp \<and> \<not> (ip = [] \<and> fp = []))"

text \<open>
  The mouse marker as the specification words it, without regard to case, and a line of
  a listing that spells it in capitals.
\<close>

definition spec_mouseMarker :: "jsstring \<Rightarrow> bool" where
  "spec_mouseMarker line = str_includes (map toLowerCase line) (js ''mouse'')"

definition capitalsLine :: jsstring where
  "capitalsLine =
     js ''USB OPTICAL MOUSE'' @ [9] @ js ''id=11'' @ [9] @ js ''[slave  pointer  (2)]''"

text \<open>
  Three concrete situations: dry-run mode with every other setting at its default; real
  mode on a host where no program can be found; and an instance with a secret stored.
\<close>

definition dryEnv :: env where
  "dryEnv =
     \<lparr>cfgDryRun = Some True, cfgDuration = None, cfgLockIntervalMin = None,
      cfgLockIntervalMax = None, now = 1000, random = 1 / 2,
      spawnFails = (\<lambda>cmd args. False), stdoutOf = (\<lambda>cmd args. None),
      promptChoice = None, inputBox = None\<rparr>"

definition bareEnv :: env where
  "bareEnv =
     \<lparr>cfgDryRun = Some False, cfgDuration = None, cfgLockIntervalMin = None,
      cfgLockIntervalMax = None, now = 1000, random = 1 / 2,
      spawnFails = (\<lambda>cmd args. True), stdoutOf = (\<lambda>cmd args. None),
      promptChoice = None, inputBox = None\<rparr>"

definition ready :: state where
  "ready = initial\<lparr>secretStorage := Some (js ''hunter2'')\<rparr>"

text \<open>The service after \<open>start\<close> in dry-run mode: the first cycle is in its locked hold.\<close>

definition sleeping :: state where
  "sleeping = settled (start dryEnv ready)"

section \<open>Auxiliary lemmas\<close>

lemma commands_append [simp]: "commands (a @ b) = commands a @ commands b"
  by (induction a) (simp_all split: option.splits)

lemma commandOf_cmdEvent [simp]: "commandOf (cmdEvent e c a) = Some (c, a)"
  by (simp add: cmdEvent_def commandOf_def)

lemma runCommandAsync_closed:
  "runCommandAsync e c a s =
     (if \<not> isDryRun e \<and> spawnFails e c a then Inl (s\<lparr>trace := trace s @ [cmdEvent e c a]\<rparr>)
      else Inr (s\<lparr>trace := trace s @ [cmdEvent e c a]\<rparr>))"
  by (simp add: runCommandAsync_def cmdEvent_def logCommand_def emit_def)

lemma settled_runCommandAsync:
  "settled (runCommandAsync e c a s) = s\<lparr>trace := trace s @ [cmdEvent e c a]\<rparr>"
  by (simp add: runCommandAsync_closed settled_def)

lemma execAndWaitForOutput_closed:
  "execAndWaitForOutput e c a s = (execOutput e c a, s\<lparr>trace := trace s @ [cmdEvent e c a]\<rparr>)"
  by (simp add: execAndWaitForOutput_def execOutput_def cmdEvent_def logCommand_def emit_def)

lemma checkBinaryExists_closed:
  "checkBinaryExists e b s = (binaryExists e b, s\<lparr>trace := trace s @ [cmdEvent e (js ''which'') [b]]\<rparr>)"
  by (simp add: checkBinaryExists_def binaryExists_def execAndWaitForOutput_closed cmdEvent_def logCommand_def emit_def
      split: option.splits)

lemma checkBinaries_closed:
  "checkBinaries e bs m s =
     (m @ filter (\<lambda>b. \<not> binaryExists e b) bs,
      s\<lparr>trace := trace s @ map (\<lambda>b. cmdEvent e (js ''which'') [b]) bs\<rparr>)"
  by (induction bs arbitrary: m s) (simp_all add: checkBinaryExists_closed)

lemma disableInputDevices_closed:
  "disableInputDevices e ids s =
     s\<lparr>trace := trace s @ map (\<lambda>i. cmdEvent e XINPUT_CMD [js ''disable'', toString i]) ids\<rparr>"
  by (induction ids arbitrary: s) (simp_all add: settled_runCommandAsync)

lemma enableInputDevices_closed:
  "enableInputDevices e ids s =
     s\<lparr>trace := trace s @ map (\<lambda>i. cmdEvent e XINPUT_CMD [js ''enable'', toString i]) ids\<rparr>"
  by (induction ids arbitrary: s) (simp_all add: settled_runCommandAsync)

lemma clearTimeouts_closed:
  "clearTimeouts ts s =
     s\<lparr>timers := filter (\<lambda>(i, k). i \<notin> set ts) (timers s), trace := trace s @ map ClearTimeout ts\<rparr>"
proof (induction ts arbitrary: s)
  case Nil
  then show ?case by simp
next
  case (Cons t ts)
  have "filter (\<lambda>(i, k). i \<notin> set ts) (filter (\<lambda>(i, k). i \<noteq> t) (timers s)) =
        filter (\<lambda>(i, k). i \<notin> set (t # ts)) (timers s)"
    by (induction "timers s") (auto intro: filter_cong)
  then show ?case
    by (simp add: Cons.IH clearTimeout_def)
qed

lemma stop_closed:
  "stop s =
     s\<lparr>active := False, currentLoopTask := None, activeTimeouts := [],
       timers := filter (\<lambda>(i, k). i \<notin> set (activeTimeouts s)) (timers s),
       trace := trace s @ stopEvents s\<rparr>"
  by (simp add: stop_def emit_def clearTimeouts_closed stopEvents_def Let_def split: option.splits)

lemma replays_append [simp]: "replays (a @ b) = replays a @ replays b"
  by (simp add: replays_def)

lemma replays_Nil [simp]: "replays [] = []"
  by (simp add: replays_def)

lemma replays_Cons:
  "replays (ev # evs) =
     (case commandOf ev of
        None \<Rightarrow> replays evs
      | Some ca \<Rightarrow> if fst ca = XDOTOOL_CMD then ca # replays evs else replays evs)"
  by (simp add: replays_def split: option.splits)

lemma lockActions_append [simp]: "lockActions (a @ b) = lockActions a @ lockActions b"
  by (simp add: lockActions_def)

lemma lockActions_Nil [simp]: "lockActions [] = []"
  by (simp add: lockActions_def)

lemma lockActions_Cons:
  "lockActions (ev # evs) =
     (case commandOf ev of
        None \<Rightarrow> lockActions evs
      | Some ca \<Rightarrow> if fst ca = LOCK_CMD then ca # lockActions evs else lockActions evs)"
  by (simp add: lockActions_def split: option.splits)

lemma cmd_distinct [simp]:
  "LOCK_CMD \<noteq> XDOTOOL_CMD" "XSET_CMD \<noteq> XDOTOOL_CMD" "XINPUT_CMD \<noteq> XDOTOOL_CMD"
  "LOGINCTL_CMD \<noteq> XDOTOOL_CMD" "js ''which'' \<noteq> XDOTOOL_CMD"
  "XDOTOOL_CMD \<noteq> LOCK_CMD" "XSET_CMD \<noteq> LOCK_CMD" "XINPUT_CMD \<noteq> LOCK_CMD"
  "LOGINCTL_CMD \<noteq> LOCK_CMD" "js ''which'' \<noteq> LOCK_CMD"
  "XDOTOOL_CMD \<noteq> LOGINCTL_CMD" "LOCK_CMD \<noteq> LOGINCTL_CMD"
  by (simp_all add: js_def LOCK_CMD_def XDOTOOL_CMD_def XSET_CMD_def XINPUT_CMD_def LOGINCTL_CMD_def)

lemma commandOf_simps [simp]:
  "commandOf (LogError m) = None" "commandOf (ShowError m) = None"
  "commandOf (ShowInfo m) = None" "commandOf (SetTimeout t ms) = None"
  "commandOf (ClearTimeout t) = None" "commandOf (SecretStore x) = None"
  "commandOf SecretDelete = None" "commandOf (Spawn c a) = Some (c, a)"
  "commandOf (LogInfo m) = (case m of WouldExecute c a \<Rightarrow> Some (c, a) | _ \<Rightarrow> None)"
  by (simp_all add: commandOf_def)

lemma commands_which [simp]:
  "commands (map (\<lambda>b. cmdEvent e c [b]) bs) = map (\<lambda>b. (c, [b])) bs"
  by (induction bs) simp_all

lemma commands_devices [simp]:
  "commands (map (\<lambda>i. cmdEvent e c [x, toString i]) ids) = map (\<lambda>i. (c, [x, toString i])) ids"
  by (induction ids) simp_all

lemma commands_ClearTimeout [simp]: "commands (map ClearTimeout ts) = []"
  by (induction ts) simp_all

lemma commands_parseDuration [simp]: "commands (snd (parseDuration d)) = []"
  by (simp add: parseDuration_def Let_def split: option.splits prod.splits)

lemma commands_stopEvents [simp]: "commands (stopEvents s) = []"
  by (simp add: stopEvents_def split: option.splits)

lemma since_append [simp]: "since s (s'\<lparr>trace := trace s @ evs\<rparr>) = evs"
  by (simp add: since_def)

lemma getMouseIds_closed:
  "getMouseIds e s = (mouseIdsOf e, s\<lparr>trace := trace s @ listingEvents e ErrorGettingMouseIds\<rparr>)"
  by (simp add: getMouseIds_def mouseIdsOf_def execAndWaitForOutput_closed listingEvents_def emit_def
      split: option.splits)

lemma getKeyboardIds_closed:
  "getKeyboardIds e s = (keyboardIdsOf e, s\<lparr>trace := trace s @ listingEvents e ErrorGettingKeyboardIds\<rparr>)"
  by (simp add: getKeyboardIds_def keyboardIdsOf_def execAndWaitForOutput_closed listingEvents_def emit_def
      split: option.splits)

lemma commands_listingEvents [simp]:
  "commands (listingEvents e m) = [(XINPUT_CMD, [js ''list''])]"
  by (simp add: listingEvents_def split: option.splits)

lemma trace_initial [simp]: "trace initial = []"
  by (simp add: initial_def)

lemma firstSession_closed:
  "firstSession ls s =
     (fst (firstSession ls initial), s\<lparr>trace := trace s @ trace (snd (firstSession ls initial))\<rparr>)"
  by (induction ls) (simp_all add: emit_def Let_def)

lemma commands_firstSession [simp]: "commands (trace (snd (firstSession ls initial))) = []"
  by (induction ls) (simp_all add: emit_def Let_def)

lemma getCurrentSessionId_None:
  assumes "execOutput e LOGINCTL_CMD [js ''list-sessions'', js ''--no-legend''] = None"
  shows "getCurrentSessionId e x =
     (None, x\<lparr>trace := trace x @ [cmdEvent e LOGINCTL_CMD [js ''list-sessions'', js ''--no-legend''],
                                   LogError ErrorExecutingLoginctl]\<rparr>)"
  using assms by (simp add: getCurrentSessionId_def execAndWaitForOutput_closed emit_def)

lemma getCurrentSessionId_Some:
  assumes "execOutput e LOGINCTL_CMD [js ''list-sessions'', js ''--no-legend''] = Some out"
  shows "getCurrentSessionId e x =
     (fst (firstSession (str_split 10 out) initial),
      x\<lparr>trace := trace x @ [cmdEvent e LOGINCTL_CMD [js ''list-sessions'', js ''--no-legend''],
                              LogInfo (LoginctlOutput out)]
                   @ trace (snd (firstSession (str_split 10 out) initial))\<rparr>)"
proof -
  define evs where "evs = [cmdEvent e LOGINCTL_CMD [js ''list-sessions'', js ''--no-legend''],
               LogInfo (LoginctlOutput out)]"
  define L where "L = str_split 10 out"
  define R where "R = fst (firstSession L initial)"
  define T where "T = trace (snd (firstSession L initial))"
  have g: "getCurrentSessionId e x = firstSession L (x\<lparr>trace := trace x @ evs\<rparr>)"
    using assms by (simp add: getCurrentSessionId_def execAndWaitForOutput_closed emit_def evs_def L_def)
  have f: "firstSession L (x\<lparr>trace := trace x @ evs\<rparr>) = (R, x\<lparr>trace := trace x @ evs @ T\<rparr>)"
    using firstSession_closed [of L "x\<lparr>trace := trace x @ evs\<rparr>"]
    by (simp only: R_def T_def) simp
  show ?thesis
    unfolding g f by (simp add: R_def T_def evs_def L_def)
qed

lemma getCurrentSessionId_closed:
  "getCurrentSessionId e s =
     (fst (getCurrentSessionId e initial),
      s\<lparr>trace := trace s @ trace (snd (getCurrentSessionId e initial))\<rparr>)"
proof (cases "execOutput e LOGINCTL_CMD [js ''list-sessions'', js ''--no-legend'']")
  case None
  show ?thesis
    by (simp add: getCurrentSessionId_None [OF None])
next
  case (Some out)
  show ?thesis
    by (simp add: getCurrentSessionId_Some [OF Some])
qed

lemma commands_getCurrentSessionId [simp]:
  "commands (trace (snd (getCurrentSessionId e initial))) =
     [(LOGINCTL_CMD, [js ''list-sessions'', js ''--no-legend''])]"
proof (cases "execOutput e LOGINCTL_CMD [js ''list-sessions'', js ''--no-legend'']")
  case None
  show ?thesis
    by (simp add: getCurrentSessionId_None [OF None])
next
  case (Some out)
  show ?thesis
    by (simp add: getCurrentSessionId_Some [OF Some])
qed

lemma terminateSession_shape:
  "\<exists>T rej. (\<forall>x. terminateSession e x =
                  (if rej then Inl (x\<lparr>trace := trace x @ T\<rparr>)
                   else Inr (x\<lparr>trace := trace x @ T\<rparr>)))
           \<and> set (commands T) \<subseteq> {ca. fst ca = LOGINCTL_CMD}"
proof -
  define r where "r = fst (getCurrentSessionId e initial)"
  define T where "T = trace (snd (getCurrentSessionId e initial))"
  define E where "E =
    (case r of
       None \<Rightarrow> [LogError CouldNotGetSessionId]
     | Some i \<Rightarrow>
         if i = [] then [LogError CouldNotGetSessionId]
         else [LogInfo (TerminatingSession i),
               cmdEvent e LOGINCTL_CMD [js ''terminate-session'', i]])"
  define rej where "rej =
    (case r of
       None \<Rightarrow> False
     | Some i \<Rightarrow> i \<noteq> [] \<and> \<not> isDryRun e
                  \<and> spawnFails e LOGINCTL_CMD [js ''terminate-session'', i])"
  have g: "getCurrentSessionId e x = (r, x\<lparr>trace := trace x @ T\<rparr>)" for x
    unfolding r_def T_def by (rule getCurrentSessionId_closed)
  have t: "terminateSession e x =
             (if rej then Inl (x\<lparr>trace := trace x @ (T @ E)\<rparr>)
              else Inr (x\<lparr>trace := trace x @ (T @ E)\<rparr>))" for x
    unfolding terminateSession_def g
    by (cases r) (simp_all add: E_def rej_def runCommandAsync_closed emit_def)
  have cT: "commands T = [(LOGINCTL_CMD, [js ''list-sessions'', js ''--no-legend''])]"
    unfolding T_def by simp
  have cE: "set (commands E) \<subseteq> {ca. fst ca = LOGINCTL_CMD}"
    by (cases r) (simp_all add: E_def)
  from t cT cE show ?thesis
    by (intro exI [of _ "T @ E"] exI [of _ rej]) simp
qed

lemma terminateSession_closed:
  "terminateSession e s =
     (if sessionRejects e then Inl (s\<lparr>trace := trace s @ sessionEvents e\<rparr>)
      else Inr (s\<lparr>trace := trace s @ sessionEvents e\<rparr>))"
proof -
  from terminateSession_shape [of e] obtain T rej where
    t: "\<And>x. terminateSession e x =
           (if rej then Inl (x\<lparr>trace := trace x @ T\<rparr>) else Inr (x\<lparr>trace := trace x @ T\<rparr>))"
    by blast
  have "sessionRejects e = rej" "sessionEvents e = T"
    by (simp_all add: sessionRejects_def sessionEvents_def t settled_def)
  then show ?thesis
    by (simp add: t)
qed

lemma commands_sessionEvents:
  "set (commands (sessionEvents e)) \<subseteq> {ca. fst ca = LOGINCTL_CMD}"
proof -
  from terminateSession_shape [of e] obtain T rej where
    t: "\<And>x. terminateSession e x =
           (if rej then Inl (x\<lparr>trace := trace x @ T\<rparr>) else Inr (x\<lparr>trace := trace x @ T\<rparr>))"
    and c: "set (commands T) \<subseteq> {ca. fst ca = LOGINCTL_CMD}"
    by blast
  have "sessionEvents e = T"
    by (simp add: sessionEvents_def t settled_def)
  with c show ?thesis by simp
qed

lemma replays_sessionEvents [simp]: "replays (sessionEvents e) = []"
  using commands_sessionEvents [of e]
  by (auto simp: replays_def filter_empty_conv)

lemma lockActions_sessionEvents [simp]: "lockActions (sessionEvents e) = []"
  using commands_sessionEvents [of e]
  by (auto simp: lockActions_def filter_empty_conv)

lemma stopEvents_trace [simp]: "stopEvents (s\<lparr>trace := x\<rparr>) = stopEvents s"
  by (simp add: stopEvents_def)

lemma replays_parseDuration [simp]: "replays (snd (parseDuration d)) = []"
  by (simp add: replays_def)

lemma replays_stopEvents [simp]: "replays (stopEvents s) = []"
  by (simp add: replays_def)

lemma replays_listingEvents [simp]: "replays (listingEvents e m) = []"
  by (simp add: replays_def)

lemma loopTask_shape:
  obtains (idle) "loopTask e s = Inr s"
  | (halted) evs where "replays evs = []"
      "settled (loopTask e s) = s\<lparr>trace := trace s @ evs\<rparr>"
  | (stopped) evs where "replays evs = []"
      "loopTask e s =
         Inr (s\<lparr>active := False, currentLoopTask := None, activeTimeouts := [],
                timers := filter (\<lambda>(i, k). i \<notin> set (activeTimeouts s)) (timers s),
                trace := trace s @ evs\<rparr>)"
  | (suspended) evs ms secret where "replays evs = []"
      "getSecret s = Some secret" "secret \<noteq> []" "active s"
      "loopTask e s =
         Inr (sleep ms (AfterLockHold secret (isDryRun e) (mouseIdsOf e) (keyboardIdsOf e))
                (s\<lparr>trace := trace s @ evs\<rparr>))"
proof (cases "getSecret s")
  case None
  then have "loopTask e s = Inr s" by (simp add: loopTask_def)
  then show ?thesis by (rule idle)
next
  case (Some secret)
  show ?thesis
  proof (cases "secret = [] \<or> \<not> active s")
    case True
    with Some have "loopTask e s = Inr s" by (auto simp: loopTask_def)
    then show ?thesis by (rule idle)
  next
    case False
    then have sec: "secret \<noteq> []" and act: "active s" by simp_all
    define logs where "logs = snd (parseDuration (getDuration e))
       @ snd (parseDuration (getLockIntervalMin e)) @ snd (parseDuration (getLockIntervalMax e))"
    define v where "v = validateLockIntervals (fst (parseDuration (getLockIntervalMin e)))
       (fst (parseDuration (getLockIntervalMax e)))"
    define ms where "ms = getRandomLockInterval (random e)
       (fst (parseDuration (getLockIntervalMin e))) (fst (parseDuration (getLockIntervalMax e)))"
    have rl: "replays logs = []" by (simp add: logs_def)
    show ?thesis
    proof (cases "valid v")
      case False
      define evs where "evs = logs @ [LogError (LockIntervalValidationFailed (error v))]
         @ stopEvents s @ [ShowError (StoppedOnViolation (error v))]"
      have "loopTask e s =
              Inr (s\<lparr>active := False, currentLoopTask := None, activeTimeouts := [],
                     timers := filter (\<lambda>(i, k). i \<notin> set (activeTimeouts s)) (timers s),
                     trace := trace s @ evs\<rparr>)"
        using Some sec act False unfolding v_def logs_def evs_def
        by (simp add: loopTask_def Let_def case_prod_beta emit_def stop_closed)
      moreover have "replays evs = []"
        by (simp add: evs_def rl replays_Cons)
      ultimately show ?thesis by (rule stopped [rotated])
    next
      case True
      note valid = this
      show ?thesis
      proof (cases "hasTimeExpired e s (fst (parseDuration (getDuration e)))")
        case True
        note expired = this
        define evs0 where "evs0 = logs @ [LogInfo (DurationExpired (getDuration e))] @ sessionEvents e"
        have r0: "replays evs0 = []"
          by (simp add: evs0_def rl replays_Cons)
        show ?thesis
        proof (cases "sessionRejects e")
          case True
          have "loopTask e s = Inl (s\<lparr>trace := trace s @ evs0\<rparr>)"
            using Some sec act valid expired True unfolding v_def logs_def evs0_def
            by (simp add: loopTask_def Let_def case_prod_beta emit_def terminateSession_closed
                hasTimeExpired_def)
          then have "settled (loopTask e s) = s\<lparr>trace := trace s @ evs0\<rparr>"
            by (simp add: settled_def)
          with r0 show ?thesis by (rule halted)
        next
          case False
          define evs where "evs = evs0 @ stopEvents s @ [ShowInfo (FinishedAfter (getDuration e))]"
          have "loopTask e s =
              Inr (s\<lparr>active := False, currentLoopTask := None, activeTimeouts := [],
                     timers := filter (\<lambda>(i, k). i \<notin> set (activeTimeouts s)) (timers s),
                     trace := trace s @ evs\<rparr>)"
            using Some sec act valid expired False unfolding v_def logs_def evs0_def evs_def
            by (simp add: loopTask_def Let_def case_prod_beta emit_def terminateSession_closed
                hasTimeExpired_def stop_closed)
          moreover have "replays evs = []"
            by (simp add: evs_def r0 replays_Cons)
          ultimately show ?thesis by (rule stopped [rotated])
        qed
      next
        case False
        note running = this
        define evs0 where "evs0 = logs
           @ (if isDryRun e then [LogInfo NewCycleStarted, LogInfo (NextLockIn ms)] else [])
           @ listingEvents e ErrorGettingMouseIds @ listingEvents e ErrorGettingKeyboardIds
           @ (if isDryRun e then [LogInfo (FoundMice (mouseIdsOf e)),
                                  LogInfo (FoundKeyboards (keyboardIdsOf e))] else [])
           @ [cmdEvent e LOCK_CMD []]"
        have r0: "replays evs0 = []"
          by (simp add: evs0_def rl replays_Cons)
        show ?thesis
        proof (cases "\<not> isDryRun e \<and> spawnFails e LOCK_CMD []")
          case True
          have "loopTask e s = Inl (s\<lparr>trace := trace s @ evs0\<rparr>)"
            using Some sec act valid running True unfolding v_def logs_def evs0_def ms_def
            by (simp add: loopTask_def Let_def case_prod_beta emit_def getMouseIds_closed
                getKeyboardIds_closed runCommandAsync_closed hasTimeExpired_def)
          then have "settled (loopTask e s) = s\<lparr>trace := trace s @ evs0\<rparr>"
            by (simp add: settled_def)
          with r0 show ?thesis by (rule halted)
        next
          case False
          define evs where "evs = evs0
             @ [cmdEvent e XSET_CMD [js ''dpms'', js ''force'', js ''off'']]
             @ (if isDryRun e then [LogInfo (SleepingFor ms)] else [])"
          have "loopTask e s =
                  Inr (sleep ms (AfterLockHold secret (isDryRun e) (mouseIdsOf e) (keyboardIdsOf e))
                         (s\<lparr>trace := trace s @ evs\<rparr>))"
            using Some sec act valid running False unfolding v_def logs_def evs0_def ms_def evs_def
            by (simp add: loopTask_def Let_def case_prod_beta emit_def getMouseIds_closed
                getKeyboardIds_closed runCommandAsync_closed settled_def
                hasTimeExpired_def)
          moreover have "replays evs = []"
            by (simp add: evs_def r0 replays_Cons)
          ultimately show ?thesis
            using Some sec act by (intro suspended [of evs secret ms]) simp_all
        qed
      qed
    qed
  qed
qed

lemma loopTask_no_secret:
  "getSecret s = None \<or> getSecret s = Some [] \<Longrightarrow> loopTask e s = Inr s"
  by (auto simp: loopTask_def)

lemma loopTask_replays: "replays (since s (settled (loopTask e s))) = []"
  by (cases e s rule: loopTask_shape) (simp_all add: settled_def since_def sleep_def replays_Cons)

lemma loopTask_cont:
  assumes "(t, AfterLockHold secret d m k) \<in> set (timers (settled (loopTask e s)))"
    and "(t, AfterLockHold secret d m k) \<notin> set (timers s)"
  shows "getSecret s = Some secret \<and> secret \<noteq> [] \<and> active s"
  using assms
  by (cases e s rule: loopTask_shape) (auto simp: settled_def sleep_def)

lemma map_of_filter_out: "t \<in> A \<Longrightarrow> map_of (filter (\<lambda>(i, k). i \<notin> A) xs) t = None"
  by (induction xs) auto

lemma fire_after_stop:
  "t \<in> set (activeTimeouts s) \<Longrightarrow> fire e t (stop s) = Inr (stop s)"
  by (simp add: fire_def stop_closed map_of_filter_out)

lemma cmdEvent_not_ShowError [simp]: "cmdEvent e c a \<noteq> ShowError m"
  by (simp add: cmdEvent_def)

lemma ShowError_not_cmdEvent [simp]: "ShowError m \<noteq> cmdEvent e c a"
  by (simp add: cmdEvent_def)

lemma ShowError_notin_which [simp]: "ShowError m \<notin> (\<lambda>b. cmdEvent e c [b]) ` A"
  by auto

lemma getSecret_frame [simp]:
  "getSecret (s\<lparr>trace := x\<rparr>) = getSecret s"
  "getSecret (s\<lparr>requiredBinariesChecked := y\<rparr>) = getSecret s"
  "getSecret (s\<lparr>active := a\<rparr>) = getSecret s"
  "getSecret (s\<lparr>startTime := n\<rparr>) = getSecret s"
  "getSecret (s\<lparr>currentLoopTask := p\<rparr>) = getSecret s"
  "getSecret (s\<lparr>nextTask := k\<rparr>) = getSecret s"
  "getSecret (s\<lparr>timers := ts\<rparr>) = getSecret s"
  "getSecret (s\<lparr>activeTimeouts := ids\<rparr>) = getSecret s"
  "getSecret (s\<lparr>nextTimer := j\<rparr>) = getSecret s"
  "getSecret (s\<lparr>resolved := rs\<rparr>) = getSecret s"
  by (simp_all add: getSecret_def)

lemma startWithSecret_no_secret:
  assumes "getSecret x = None \<or> getSecret x = Some []"
  shows "startWithSecret e d x =
     Inr (if promptChoice e = Some (js ''Set Secret Now'')
          then emit [ShowInfo SecretSetStartAgain] (setSecret e (emit [ShowError SecretNotSet] x))
          else emit [ShowError SecretNotSet] x)"
  using assms by (auto simp: startWithSecret_def Let_def)

lemma setSecret_closed:
  "setSecret e x =
     (case inputBox e of
        None \<Rightarrow> x
      | Some pw \<Rightarrow>
          if pw = [] then x
          else x\<lparr>secretStorage := Some (trim pw),
                 trace := trace x @ [SecretStore (trim pw), ShowInfo PasswordUpdated]\<rparr>)"
  by (simp add: setSecret_def emit_def split: option.splits)

lemma parseDuration_defaults:
  "parseDuration (js ''1h'') = (Num 3600000, [])"
  "parseDuration (js ''10m'') = (Num 600000, [])"
  "parseDuration (js ''20m'') = (Num 1200000, [])"
  by (simp_all add: parseDuration_def js_def trim_def isWhiteSpace_def matchDuration_def isDigit_def
      parseFloat_def digitsValue_def toLowerCase_def)

lemma getSecret_ready: "getSecret ready = Some (js ''hunter2'')"
  by (simp add: getSecret_def ready_def initial_def trim_def js_def isWhiteSpace_def)

lemma dryEnv_simps:
  "isDryRun dryEnv" "getDuration dryEnv = js ''1h''" "getLockIntervalMin dryEnv = js ''10m''"
  "getLockIntervalMax dryEnv = js ''20m''" "now dryEnv = 1000" "random dryEnv = 1 / 2"
  by (simp_all add: dryEnv_def isDryRun_def getDuration_def getLockIntervalMin_def
      getLockIntervalMax_def)

lemma keyboardLines_mock: "keyboardLines (str_split 10 mockListing) [] = [10]"
  by (simp add: mockListing_def js_def isDigit_def parseInt_def digitsValue_def)

lemma mouseLines_mock: "mouseLines (str_split 10 mockListing) [] = [9]"
  by (simp add: mockListing_def js_def isDigit_def parseInt_def digitsValue_def)

lemma devices_dryEnv: "mouseIdsOf dryEnv = [9]" "keyboardIdsOf dryEnv = [10]"
  by (simp_all add: mouseIdsOf_def keyboardIdsOf_def getMouseIds_def getKeyboardIds_def
      execAndWaitForOutput_def dryEnv_simps XINPUT_CMD_def keyboardLines_mock mouseLines_mock)

lemma sleeping_state:
  "timers sleeping = [(0, AfterLockHold (js ''hunter2'') True [9] [10])]
   \<and> activeTimeouts sleeping = [0] \<and> resolved sleeping = [] \<and> active sleeping
   \<and> currentLoopTask sleeping = Some 0"
proof -
  define x where "x = ready\<lparr>trace := trace ready @ map (\<lambda>b. cmdEvent dryEnv (js ''which'') [b]) REQUIRED_BINARIES,
                       requiredBinariesChecked := True\<rparr>"
  have gx: "getSecret x = Some (js ''hunter2'')"
    by (simp add: x_def getSecret_ready)
  have nx: "js ''hunter2'' \<noteq> []" by (simp add: js_def)
  have ax: "\<not> active x" "nextTask x = 0" "nextTimer x = 0" "timers x = []" "activeTimeouts x = []"
    "resolved x = []"
    by (simp_all add: x_def ready_def initial_def)
  have v: "valid (validateLockIntervals (Num 600000) (Num 1200000))"
    by (simp add: validateLockIntervals_def MAX_INTERVAL_MS_def)
  have "start dryEnv ready = startWithSecret dryEnv True x"
    by (simp add: start_def checkRequiredBinaries_def checkBinaries_closed Let_def x_def
        dryEnv_simps ready_def initial_def)
  also have "\<dots> = startLoop dryEnv True x"
    using gx nx by (simp add: startWithSecret_def Let_def)
  finally have st: "start dryEnv ready = startLoop dryEnv True x" .
  define y where "y = settled (startLoop dryEnv True x)"
  have "timers y = [(0, AfterLockHold (js ''hunter2'') True (mouseIdsOf dryEnv) (keyboardIdsOf dryEnv))]
     \<and> activeTimeouts y = [0] \<and> resolved y = [] \<and> active y \<and> currentLoopTask y = Some 0"
    unfolding y_def using ax v gx nx
    by (simp add: startLoop_def loopTask_def Let_def dryEnv_simps parseDuration_defaults emit_def
        runCommandAsync_closed getMouseIds_closed getKeyboardIds_closed settled_def sleep_def
        hasTimeExpired_def getRandomLockInterval_def)
  then show ?thesis
    by (simp add: sleeping_def st y_def devices_dryEnv)
qed

lemma loopTask_dry_ready:
  "timers (settled (loopTask dryEnv (ready\<lparr>active := True\<rparr>)))
     = [(0, AfterLockHold (js ''hunter2'') True [9] [10])]"
proof -
  have v: "valid (validateLockIntervals (Num 600000) (Num 1200000))"
    by (simp add: validateLockIntervals_def MAX_INTERVAL_MS_def)
  have nx: "js ''hunter2'' \<noteq> []" by (simp add: js_def)
  have r: "timers ready = []" "nextTimer ready = 0" "startTime ready = 0"
    by (simp_all add: ready_def initial_def)
  show ?thesis
    using v nx r
    by (simp add: loopTask_def Let_def dryEnv_simps parseDuration_defaults emit_def
        runCommandAsync_closed getMouseIds_closed getKeyboardIds_closed settled_def sleep_def
        hasTimeExpired_def getRandomLockInterval_def getSecret_ready devices_dryEnv)
qed

lemma replays_devices [simp]:
  "replays (map (\<lambda>i. cmdEvent e XINPUT_CMD [x, toString i]) ids) = []"
  by (induction ids) (simp_all add: replays_Cons)

lemma since_self [simp]: "since s s = []"
  by (simp add: since_def)

lemma afterLockHold_replays:
  "set (replays (since s (settled (afterLockHold e secret d m k s))))
     \<subseteq> {(XDOTOOL_CMD, [js ''type'', secret]), (XDOTOOL_CMD, [js ''key'', js ''Return''])}"
proof (cases "active s")
  case False
  then show ?thesis
    by (simp add: afterLockHold_def settled_def)
next
  case True
  note act = this
  define pre where "pre =
     cmdEvent e XSET_CMD [js ''dpms'', js ''force'', js ''off'']
     # map (\<lambda>i. cmdEvent e XINPUT_CMD [js ''disable'', toString i]) m
     @ map (\<lambda>i. cmdEvent e XINPUT_CMD [js ''disable'', toString i]) k
     @ [cmdEvent e LOCK_CMD []]"
  have rp: "replays pre = []"
    by (simp add: pre_def replays_Cons)
  show ?thesis
  proof (cases "\<not> isDryRun e \<and> spawnFails e LOCK_CMD []")
    case True
    with act have "afterLockHold e secret d m k s = Inl (s\<lparr>trace := trace s @ pre\<rparr>)"
      by (simp add: afterLockHold_def Let_def emit_def runCommandAsync_closed settled_def
          disableInputDevices_closed pre_def)
    then show ?thesis
      by (simp add: settled_def rp)
  next
    case False
    note lock = this
    show ?thesis
    proof (cases "\<not> isDryRun e \<and> spawnFails e XDOTOOL_CMD [js ''type'', secret]")
      case True
      with act lock have "afterLockHold e secret d m k s =
          Inl (s\<lparr>trace := trace s @ pre @ [cmdEvent e XDOTOOL_CMD [js ''type'', secret]]\<rparr>)"
        by (simp add: afterLockHold_def Let_def emit_def runCommandAsync_closed settled_def
            disableInputDevices_closed pre_def)
      then show ?thesis
        by (simp add: settled_def rp replays_Cons)
    next
      case False
      note typed = this
      show ?thesis
      proof (cases "\<not> isDryRun e \<and> spawnFails e XDOTOOL_CMD [js ''key'', js ''Return'']")
        case True
        with act lock typed have "afterLockHold e secret d m k s =
            Inl (s\<lparr>trace := trace s @ pre @
                   [cmdEvent e XDOTOOL_CMD [js ''type'', secret],
                    cmdEvent e XSET_CMD [js ''dpms'', js ''force'', js ''off''],
                    cmdEvent e XDOTOOL_CMD [js ''key'', js ''Return'']]\<rparr>)"
          by (simp add: afterLockHold_def Let_def emit_def runCommandAsync_closed settled_def
              disableInputDevices_closed pre_def)
        then show ?thesis
          by (simp add: settled_def rp replays_Cons)
      next
        case False
        with act lock typed have "afterLockHold e secret d m k s =
            Inr (sleep UNLOCK_TIME_MS (AfterUnlockHold d m k)
                  (s\<lparr>trace := trace s @ pre @
                   [cmdEvent e XDOTOOL_CMD [js ''type'', secret],
                    cmdEvent e XSET_CMD [js ''dpms'', js ''force'', js ''off''],
                    cmdEvent e XDOTOOL_CMD [js ''key'', js ''Return''],
                    cmdEvent e XSET_CMD [js ''dpms'', js ''force'', js ''off'']]
                   @ (if d then [LogInfo (UnlockedFor UNLOCK_TIME_MS)] else [])\<rparr>))"
          by (simp add: afterLockHold_def Let_def emit_def runCommandAsync_closed settled_def
              disableInputDevices_closed pre_def)
        then show ?thesis
          by (simp add: settled_def sleep_def rp replays_Cons since_def)
      qed
    qed
  qed
qed

lemma loopTask_trace: "\<exists>evs. trace (settled (loopTask e s)) = trace s @ evs \<and> replays evs = []"
proof (cases e s rule: loopTask_shape)
  case idle
  then show ?thesis by (intro exI [of _ "[]"]) (simp add: settled_def)
next
  case (halted evs)
  then show ?thesis by (intro exI [of _ evs]) simp
next
  case (stopped evs)
  then show ?thesis by (intro exI [of _ evs]) (simp add: settled_def)
next
  case (suspended evs ms secret)
  then show ?thesis
    by (intro exI [of _ "evs @ [SetTimeout (nextTimer s) ms]"])
       (simp add: settled_def sleep_def replays_Cons)
qed

lemma afterUnlockHold_replays:
  "replays (since s (settled (afterUnlockHold e d m k s))) = []"
proof (cases "active s")
  case False
  then show ?thesis
    by (simp add: afterUnlockHold_def settled_def)
next
  case True
  define pre where "pre =
     cmdEvent e XSET_CMD [js ''dpms'', js ''force'', js ''off'']
     # map (\<lambda>i. cmdEvent e XINPUT_CMD [js ''enable'', toString i]) m
     @ map (\<lambda>i. cmdEvent e XINPUT_CMD [js ''enable'', toString i]) k
     @ (if d then [LogInfo CycleCompleted] else [])"
  define x where "x = s\<lparr>trace := trace s @ pre, currentLoopTask := Some (nextTask s),
                       nextTask := Suc (nextTask s)\<rparr>"
  have rp: "replays pre = []"
    by (simp add: pre_def replays_Cons)
  from True have "afterUnlockHold e d m k s = loopTask e x"
    by (simp add: afterUnlockHold_def Let_def emit_def runCommandAsync_closed settled_def
        enableInputDevices_closed pre_def x_def)
  moreover obtain evs where "trace (settled (loopTask e x)) = trace x @ evs" "replays evs = []"
    using loopTask_trace [of e x] by blast
  ultimately show ?thesis
    by (simp add: since_def x_def rp)
qed

section \<open>Durations and intervals: properties\<close>

text \<open>
  C4. For every pair of bounds with \<open>min \<le> max \<le> 30\<close> minutes, \<open>validateLockIntervals\<close>
  answers valid; for a minimum above 30 minutes it reports that the minimum exceeds the
  limit; for a maximum above 30 minutes, the minimum being within the limit, that the
  maximum exceeds it; and for a minimum above the maximum, both within the limit, that
  the minimum is greater than the maximum.
\<close>

theorem validateLockIntervals_verdicts:
  "(js_le minMs maxMs \<and> js_le maxMs MAX_INTERVAL_MS \<longrightarrow>
      validateLockIntervals minMs maxMs = \<lparr>valid = True, error = None\<rparr>)
   \<and> (js_gt minMs MAX_INTERVAL_MS \<longrightarrow>
      validateLockIntervals minMs maxMs = \<lparr>valid = False, error = Some MinExceedsLimit\<rparr>)
   \<and> (js_le minMs MAX_INTERVAL_MS \<and> js_gt maxMs MAX_INTERVAL_MS \<longrightarrow>
      validateLockIntervals minMs maxMs = \<lparr>valid = False, error = Some MaxExceedsLimit\<rparr>)
   \<and> (js_le minMs MAX_INTERVAL_MS \<and> js_le maxMs MAX_INTERVAL_MS \<and> js_gt minMs maxMs \<longrightarrow>
      validateLockIntervals minMs maxMs =
        \<lparr>valid = False, error = Some (MinGreaterThanMax minMs maxMs)\<rparr>)"
  by (cases minMs; cases maxMs) (auto simp: validateLockIntervals_def MAX_INTERVAL_MS_def)

theorem validateLockIntervals_verdicts_witness:
  "validateLockIntervals (Num 600000) (Num 1200000) = \<lparr>valid = True, error = None\<rparr>
   \<and> validateLockIntervals (Num 1860000) (Num 2100000) =
       \<lparr>valid = False, error = Some MinExceedsLimit\<rparr>
   \<and> validateLockIntervals (Num 600000) (Num 1860000) =
       \<lparr>valid = False, error = Some MaxExceedsLimit\<rparr>
   \<and> validateLockIntervals (Num 1200000) (Num 600000) =
       \<lparr>valid = False, error = Some (MinGreaterThanMax (Num 1200000) (Num 600000))\<rparr>"
  using validateLockIntervals_verdicts [of "Num 600000" "Num 1200000"]
    validateLockIntervals_verdicts [of "Num 1860000" "Num 2100000"]
    validateLockIntervals_verdicts [of "Num 600000" "Num 1860000"]
    validateLockIntervals_verdicts [of "Num 1200000" "Num 600000"]
  by (simp add: MAX_INTERVAL_MS_def)

text \<open>
  C6. When \<open>min < max\<close>, every value of \<open>getRandomLockInterval\<close> lies between the bounds,
  both included, whatever \<open>Math.random()\<close> returns in \<open>[0, 1)\<close>; when \<open>min = max\<close> the
  result is that value, whatever the random source would give.
\<close>

theorem getRandomLockInterval_range:
  "(0 \<le> r \<and> r < 1 \<and> js_lt minMs maxMs \<longrightarrow>
      js_le minMs (getRandomLockInterval r minMs maxMs)
      \<and> js_le (getRandomLockInterval r minMs maxMs) maxMs)
   \<and> (js_eq minMs maxMs \<longrightarrow> getRandomLockInterval r minMs maxMs = minMs)"
proof (cases minMs; cases maxMs)
  fix a b
  assume ab: "minMs = Num a" "maxMs = Num b"
  have "a \<le> r * (b - a) + a \<and> r * (b - a) + a \<le> b" if r: "0 \<le> r" "r < 1" and lt: "a < b"
  proof -
    from lt have d: "0 \<le> b - a" by simp
    from r d have "0 \<le> r * (b - a)" by (intro mult_nonneg_nonneg) simp_all
    moreover from r d have "r * (b - a) \<le> 1 * (b - a)" by (intro mult_right_mono) simp_all
    ultimately show ?thesis by simp
  qed
  then show ?thesis
    by (auto simp: ab getRandomLockInterval_def)
qed (simp_all add: getRandomLockInterval_def)

theorem getRandomLockInterval_range_witness:
  "js_le (Num 600000) (getRandomLockInterval (1 / 2) (Num 600000) (Num 1200000))
   \<and> js_le (getRandomLockInterval (1 / 2) (Num 600000) (Num 1200000)) (Num 1200000)
   \<and> getRandomLockInterval (1 / 2) (Num 900000) (Num 900000) = Num 900000"
  using getRandomLockInterval_range [of "1 / 2" "Num 600000" "Num 1200000"]
    getRandomLockInterval_range [of "1 / 2" "Num 900000" "Num 900000"]
  by simp

text \<open>
  C5. The claim: a string that is a decimal number followed by one unit letter parses to
  the number times the factor of the unit, and every other string gives the one-hour
  fallback with an error logged. The code departs from it at \<open>10.5.5m\<close>, whose numeric
  part is no decimal number: the pattern accepts it, nothing is logged, and the result is
  630000 ms, not 3600000 ms.
\<close>

theorem parseDuration_accepts_two_dots:
  "\<not> wellFormedDecimal (js ''10.5.5'')
   \<and> parseDuration (js ''10.5.5m'') = (Num 630000, [])
   \<and> parseDuration (js ''10.5.5m'')
       \<noteq> (Num 3600000, [LogError (InvalidDurationFormat (js ''10.5.5m''))])"
  by (simp add: parseDuration_def js_def trim_def isWhiteSpace_def matchDuration_def isDigit_def
      parseFloat_def digitsValue_def toLowerCase_def wellFormedDecimal_def)

text \<open>
  C10. The pattern of \<open>parseDuration\<close> accepts strings whose numeric part is no decimal
  number, such as \<open>.h\<close> and \<open>10.5.5m\<close>. For them the error path is not taken and the
  result is not the fallback: a numeric part of dots only gives \<open>NaN\<close>, and what follows
  a second dot is dropped, so that \<open>10.5.5m\<close> parses as \<open>10.5m\<close> does.
\<close>

theorem parseDuration_malformed_numbers:
  "matchDuration (trim (js ''.h'')) = Some (js ''.'', 104)
   \<and> \<not> wellFormedDecimal (js ''.'')
   \<and> parseDuration (js ''.h'') = (NaN, [])
   \<and> matchDuration (trim (js ''10.5.5m'')) = Some (js ''10.5.5'', 109)
   \<and> \<not> wellFormedDecimal (js ''10.5.5'')
   \<and> parseDuration (js ''10.5.5m'') = (Num 630000, [])
   \<and> parseDuration (js ''10.5m'') = (Num 630000, [])
   \<and> fst (parseDuration (js ''10.5.5m'')) \<noteq> Num (60 * 60 * 1000)"
  by (simp add: parseDuration_def js_def trim_def isWhiteSpace_def matchDuration_def isDigit_def
      parseFloat_def digitsValue_def toLowerCase_def wellFormedDecimal_def)

section \<open>Device listing: properties\<close>

text \<open>
  C7, as the specification states it, asks for a mouse marker without regard to case. At
  a line that spells the marker in capitals the code finds no mouse, although the line has
  the pointer marker, the mouse marker of the specification and an id.
\<close>

theorem mouse_in_capitals_not_found:
  "str_includes capitalsLine (js ''slave  pointer'')
   \<and> spec_mouseMarker capitalsLine
   \<and> matchId capitalsLine = Some (js ''11'')
   \<and> mouseLines [capitalsLine] [] = []"
  by (simp add: capitalsLine_def spec_mouseMarker_def toLowerCase_def js_def isDigit_def
      parseInt_def digitsValue_def)

text \<open>
  C7, amended. A line of the listing yields a keyboard id exactly when it contains
  \<open>slave  keyboard\<close> and \<open>wired keyboard\<close> and has an \<open>id=\<close> followed by digits, and a
  mouse id exactly when it contains \<open>slave  pointer\<close> and one of the two spellings
  \<open>Mouse\<close> and \<open>mouse\<close> and has such an id; the id is the number at the first \<open>id=\<close>
  with digits, and the ids come in the order of the lines. On the listing of dry-run
  mode the keyboards are \<open>[10]\<close> and the mice are \<open>[9]\<close>.
\<close>

theorem device_ids_by_markers:
  "keyboardLines lines acc =
     acc @ concat (map (\<lambda>line.
       if str_includes line (js ''slave  keyboard'') \<and> str_includes line (js ''wired keyboard'')
       then (case matchId line of Some d \<Rightarrow> [parseInt d] | None \<Rightarrow> []) else []) lines)
   \<and> mouseLines lines acc =
     acc @ concat (map (\<lambda>line.
       if str_includes line (js ''slave  pointer'')
          \<and> (str_includes line (js ''Mouse'') \<or> str_includes line (js ''mouse''))
       then (case matchId line of Some d \<Rightarrow> [parseInt d] | None \<Rightarrow> []) else []) lines)
   \<and> keyboardLines (str_split 10 mockListing) [] = [10]
   \<and> mouseLines (str_split 10 mockListing) [] = [9]"
proof -
  have "keyboardLines lines acc =
     acc @ concat (map (\<lambda>line.
       if str_includes line (js ''slave  keyboard'') \<and> str_includes line (js ''wired keyboard'')
       then (case matchId line of Some d \<Rightarrow> [parseInt d] | None \<Rightarrow> []) else []) lines)"
    by (induction lines arbitrary: acc) (simp_all split: option.splits)
  moreover have "mouseLines lines acc =
     acc @ concat (map (\<lambda>line.
       if str_includes line (js ''slave  pointer'')
          \<and> (str_includes line (js ''Mouse'') \<or> str_includes line (js ''mouse''))
       then (case matchId line of Some d \<Rightarrow> [parseInt d] | None \<Rightarrow> []) else []) lines)"
    by (induction lines arbitrary: acc) (simp_all split: option.splits)
  moreover have "keyboardLines (str_split 10 mockListing) [] = [10]"
    by (rule keyboardLines_mock)
  moreover have "mouseLines (str_split 10 mockListing) [] = [9]"
    by (rule mouseLines_mock)
  ultimately show ?thesis by blast
qed

section \<open>Lifecycle: properties\<close>

text \<open>
  C9. When the scheduler is already active, \<open>start\<close> returns with the active flag, the
  start time, the pending loop task, the timers and the count of loop tasks as they
  were, and without running the lock program. When moreover the binaries have been
  checked and a secret is stored, the call changes nothing at all.
\<close>

theorem start_while_active:
  assumes "active s"
  shows "start e s = Inr (settled (start e s))
     \<and> active (settled (start e s)) = active s
     \<and> startTime (settled (start e s)) = startTime s
     \<and> currentLoopTask (settled (start e s)) = currentLoopTask s
     \<and> nextTask (settled (start e s)) = nextTask s
     \<and> timers (settled (start e s)) = timers s
     \<and> activeTimeouts (settled (start e s)) = activeTimeouts s
     \<and> lockActions (since s (settled (start e s))) = []
     \<and> (if requiredBinariesChecked s \<and> getSecret s \<noteq> None \<and> getSecret s \<noteq> Some []
         then start e s = Inr s else True)"
  using assms
  by (simp add: start_def startWithSecret_def startLoop_def checkRequiredBinaries_def
      checkBinaries_closed setSecret_def emit_def settled_def Let_def since_def lockActions_def
      split: option.splits)

theorem start_while_active_witness:
  "active (ready\<lparr>active := True, requiredBinariesChecked := True\<rparr>)
   \<and> start dryEnv (ready\<lparr>active := True, requiredBinariesChecked := True\<rparr>)
       = Inr (ready\<lparr>active := True, requiredBinariesChecked := True\<rparr>)"
proof -
  have "getSecret (ready\<lparr>active := True, requiredBinariesChecked := True\<rparr>) = Some (js ''hunter2'')"
    by (simp add: getSecret_def ready_def initial_def trim_def js_def isWhiteSpace_def)
  then show ?thesis
    using start_while_active [of "ready\<lparr>active := True, requiredBinariesChecked := True\<rparr>" dryEnv]
    by (simp add: js_def)
qed

text \<open>
  C8, as stated, has the operator prompted for a secret whenever none is stored. The
  check of the binaries comes first: in real mode on a host without them, \<open>start\<close> reports
  the missing binaries and returns before it looks at the secret.
\<close>

theorem no_prompt_when_binaries_missing:
  "getSecret initial = None
   \<and> since initial (settled (start bareEnv initial)) =
       [Spawn (js ''which'') [js ''ft_lock''], Spawn (js ''which'') [js ''xdotool''],
        Spawn (js ''which'') [js ''xset''], Spawn (js ''which'') [js ''xinput''],
        Spawn (js ''which'') [js ''loginctl''], ShowError (MissingBinaries REQUIRED_BINARIES)]
   \<and> ShowError SecretNotSet \<notin> set (since initial (settled (start bareEnv initial)))"
  by (simp add: start_def checkRequiredBinaries_def REQUIRED_BINARIES_def checkBinaryExists_def
      execAndWaitForOutput_def bareEnv_def isDryRun_def initial_def emit_def settled_def
      getSecret_def since_def Let_def)

text \<open>
  C8, amended. When no secret is stored, or the stored one is empty after \<open>trim\<close>,
  \<open>start\<close> returns without a session: the active flag, the start time, the loop task and
  the timers are as before, no loop task is created and the lock program is not run,
  whatever the operator answers. The operator is prompted for a secret exactly when the
  check of the binaries lets \<open>start\<close> go on: they were checked before, or the mode is
  dry-run, or none is missing.
\<close>

theorem start_without_secret:
  assumes "getSecret s = None \<or> getSecret s = Some []"
  shows "start e s = Inr (settled (start e s))
     \<and> active (settled (start e s)) = active s
     \<and> startTime (settled (start e s)) = startTime s
     \<and> currentLoopTask (settled (start e s)) = currentLoopTask s
     \<and> nextTask (settled (start e s)) = nextTask s
     \<and> timers (settled (start e s)) = timers s
     \<and> lockActions (since s (settled (start e s))) = []
     \<and> (ShowError SecretNotSet \<in> set (since s (settled (start e s))))
         = (requiredBinariesChecked s \<or> isDryRun e \<or> fst (checkRequiredBinaries e s) = [])"
proof (cases "requiredBinariesChecked s")
  case True
  with assms show ?thesis
    by (simp add: start_def startWithSecret_no_secret setSecret_closed emit_def settled_def
        since_def lockActions_def split: option.splits)
next
  case False
  note notyet = this
  define x where "x = s\<lparr>trace := trace s @ map (\<lambda>b. cmdEvent e (js ''which'') [b]) REQUIRED_BINARIES,
                       requiredBinariesChecked := True\<rparr>"
  have sx: "getSecret x = None \<or> getSecret x = Some []"
    using assms by (simp add: x_def)
  show ?thesis
  proof (cases "filter (\<lambda>b. \<not> binaryExists e b) REQUIRED_BINARIES \<noteq> [] \<and> \<not> isDryRun e")
    case True
    with notyet show ?thesis
      by (simp add: start_def checkRequiredBinaries_def checkBinaries_closed emit_def settled_def
          since_def lockActions_def Let_def)
  next
    case False
    then have "start e s = startWithSecret e (isDryRun e) x"
      using notyet
      by (auto simp: start_def checkRequiredBinaries_def checkBinaries_closed Let_def x_def)
    then have st: "start e s =
        Inr (if promptChoice e = Some (js ''Set Secret Now'')
             then emit [ShowInfo SecretSetStartAgain] (setSecret e (emit [ShowError SecretNotSet] x))
             else emit [ShowError SecretNotSet] x)"
      by (simp only: startWithSecret_no_secret [OF sx])
    show ?thesis
      unfolding st using False notyet
      by (auto simp: x_def setSecret_closed emit_def settled_def since_def lockActions_def
          checkRequiredBinaries_def checkBinaries_closed split: option.splits)
  qed
qed

theorem start_without_secret_witness:
  "getSecret initial = None
   \<and> \<not> active (settled (start dryEnv initial))
   \<and> currentLoopTask (settled (start dryEnv initial)) = None
   \<and> timers (settled (start dryEnv initial)) = []
   \<and> lockActions (since initial (settled (start dryEnv initial))) = []
   \<and> ShowError SecretNotSet \<in> set (since initial (settled (start dryEnv initial)))"
proof -
  have h: "getSecret initial = None"
    by (simp add: getSecret_def initial_def)
  note w = start_without_secret [of initial dryEnv, OF disjI1, OF h]
  from w have "active (settled (start dryEnv initial)) = active initial"
    and "currentLoopTask (settled (start dryEnv initial)) = currentLoopTask initial"
    and "timers (settled (start dryEnv initial)) = timers initial"
    and "lockActions (since initial (settled (start dryEnv initial))) = []"
    and "ShowError SecretNotSet \<in> set (since initial (settled (start dryEnv initial)))"
    by (simp_all add: dryEnv_simps)
  with h show ?thesis
    by (simp add: initial_def)
qed

section \<open>The cycle: properties\<close>

text \<open>
  C1. In every iteration the secret is resolved first, and when it is absent or empty
  after \<open>trim\<close> the iteration returns the state as it was. The code up to the locked
  hold replays nothing; the code it leaves for the end of the locked hold carries the
  secret resolved in this iteration, which is not empty; that code types this secret and
  the confirmation key and no other text; and the code after the unlocked hold, with the
  start of the next iteration, replays nothing.
\<close>

theorem replay_only_with_resolved_secret:
  "(getSecret s = None \<or> getSecret s = Some [] \<longrightarrow> loopTask e s = Inr s)
   \<and> replays (since s (settled (loopTask e s))) = []
   \<and> ((t, AfterLockHold secret dryRun mouseIds keyboardIds) \<in> set (timers (settled (loopTask e s)))
        \<and> (t, AfterLockHold secret dryRun mouseIds keyboardIds) \<notin> set (timers s)
       \<longrightarrow> getSecret s = Some secret \<and> secret \<noteq> [])
   \<and> set (replays (since s' (settled (afterLockHold e' secret dryRun mouseIds keyboardIds s'))))
       \<subseteq> {(XDOTOOL_CMD, [js ''type'', secret]), (XDOTOOL_CMD, [js ''key'', js ''Return''])}
   \<and> replays (since s' (settled (afterUnlockHold e' dryRun mouseIds keyboardIds s'))) = []"
  using loopTask_no_secret [of s e] loopTask_replays [of s e]
    loopTask_cont [of t secret dryRun mouseIds keyboardIds e s]
    afterLockHold_replays [of s' e' secret dryRun mouseIds keyboardIds]
    afterUnlockHold_replays [of s' e' dryRun mouseIds keyboardIds]
  by blast

theorem replay_only_with_resolved_secret_witness:
  "getSecret (initial\<lparr>active := True\<rparr>) = None
   \<and> loopTask dryEnv (initial\<lparr>active := True\<rparr>) = Inr (initial\<lparr>active := True\<rparr>)
   \<and> (0, AfterLockHold (js ''hunter2'') True [9] [10])
        \<in> set (timers (settled (loopTask dryEnv (ready\<lparr>active := True\<rparr>))))
   \<and> (0, AfterLockHold (js ''hunter2'') True [9] [10]) \<notin> set (timers (ready\<lparr>active := True\<rparr>))
   \<and> getSecret (ready\<lparr>active := True\<rparr>) = Some (js ''hunter2'')
   \<and> js ''hunter2'' \<noteq> []"
proof -
  have h1: "getSecret (initial\<lparr>active := True\<rparr>) = None"
    by (simp add: getSecret_def initial_def)
  have h2: "(0, AfterLockHold (js ''hunter2'') True [9] [10])
        \<in> set (timers (settled (loopTask dryEnv (ready\<lparr>active := True\<rparr>))))"
    by (simp add: loopTask_dry_ready)
  have h3: "(0, AfterLockHold (js ''hunter2'') True [9] [10]) \<notin> set (timers (ready\<lparr>active := True\<rparr>))"
    by (simp add: ready_def initial_def)
  from h1 replay_only_with_resolved_secret [where s = "initial\<lparr>active := True\<rparr>" and e = dryEnv]
  have c1: "loopTask dryEnv (initial\<lparr>active := True\<rparr>) = Inr (initial\<lparr>active := True\<rparr>)"
    by blast
  from h2 h3 replay_only_with_resolved_secret [where s = "ready\<lparr>active := True\<rparr>" and e = dryEnv
      and t = 0 and secret = "js ''hunter2''" and dryRun = True and mouseIds = "[9]"
      and keyboardIds = "[10]"]
  have c2: "getSecret (ready\<lparr>active := True\<rparr>) = Some (js ''hunter2'') \<and> js ''hunter2'' \<noteq> []"
    by blast
  from h1 h2 h3 c1 c2 show ?thesis by blast
qed

text \<open>
  C2. When \<open>stop\<close> is called while a cycle is in its locked hold, the set of pending
  timers is empty afterwards, the timer of the hold has left the runtime with the code it
  would have resumed, so that its callback does nothing, and \<open>stop\<close> itself runs no
  command and sets no timer: the devices are not disabled, the secret is not replayed,
  there is no unlocked hold and no re-enabling. Even if the code after the locked hold
  were resumed, it would find the service inactive and return at once.
\<close>

theorem stop_during_locked_hold:
  assumes "(t, AfterLockHold secret dryRun mouseIds keyboardIds) \<in> set (timers s)"
    and "t \<in> set (activeTimeouts s)"
  shows "activeTimeouts (stop s) = []
     \<and> \<not> active (stop s)
     \<and> (t, AfterLockHold secret dryRun mouseIds keyboardIds) \<notin> set (timers (stop s))
     \<and> fire e t (stop s) = Inr (stop s)
     \<and> afterLockHold e secret dryRun mouseIds keyboardIds (stop s) = Inr (stop s)
     \<and> commands (since s (stop s)) = []
     \<and> nextTimer (stop s) = nextTimer s"
  using assms
  by (simp add: fire_after_stop) (simp add: stop_closed since_def afterLockHold_def)

theorem stop_during_locked_hold_witness:
  "(0, AfterLockHold (js ''hunter2'') True [9] [10]) \<in> set (timers sleeping)
   \<and> 0 \<in> set (activeTimeouts sleeping)
   \<and> activeTimeouts (stop sleeping) = []
   \<and> \<not> active (stop sleeping)
   \<and> fire dryEnv 0 (stop sleeping) = Inr (stop sleeping)
   \<and> afterLockHold dryEnv (js ''hunter2'') True [9] [10] (stop sleeping) = Inr (stop sleeping)
   \<and> commands (since sleeping (stop sleeping)) = []"
proof -
  have h1: "(0, AfterLockHold (js ''hunter2'') True [9] [10]) \<in> set (timers sleeping)"
    by (simp add: sleeping_state)
  have h2: "0 \<in> set (activeTimeouts sleeping)"
    by (simp add: sleeping_state)
  from stop_during_locked_hold [OF h1 h2, of dryEnv] h1 h2 show ?thesis
    by blast
qed

text \<open>
  C3, as stated, has the promise of a pending sleep resolve once \<open>stop\<close> has cancelled its
  timer. It does not: after \<open>start\<close> in dry-run mode the sleep of the locked hold is
  pending on timer 0; \<open>stop\<close> clears the timer, and the promise is not resolved.
\<close>

theorem cancelled_sleep_not_resolved:
  "0 \<in> set (activeTimeouts sleeping)
   \<and> map_of (timers sleeping) 0 = Some (AfterLockHold (js ''hunter2'') True [9] [10])
   \<and> map_of (timers (stop sleeping)) 0 = None
   \<and> 0 \<notin> set (resolved (stop sleeping))"
  by (simp add: sleeping_state stop_closed)

text \<open>
  C3, amended. \<open>stop\<close> clears every timer of the set of pending timers and empties the
  set before it logs that it has stopped. A sleep whose timer was cleared is never
  resolved: its timer has left the runtime, its callback does nothing, and the cycle that
  was suspended in it is not resumed.
\<close>

theorem stop_cancels_pending_sleeps:
  "activeTimeouts (stop s) = []
   \<and> timers (stop s) = filter (\<lambda>(i, k). i \<notin> set (activeTimeouts s)) (timers s)
   \<and> resolved (stop s) = resolved s
   \<and> since s (stop s) =
       [LogInfo StopRequested, LogInfo (ClearingTimeouts (length (activeTimeouts s)))]
       @ map ClearTimeout (activeTimeouts s)
       @ [LogInfo AllTimeoutsCleared]
       @ (case currentLoopTask s of None \<Rightarrow> [] | Some p \<Rightarrow> [LogInfo LoopTaskNotAwaited])
       @ [LogInfo StoppedSuccessfully, ShowInfo IsStopped]
   \<and> (\<forall>t \<in> set (activeTimeouts s).
         map_of (timers (stop s)) t = None \<and> fire e t (stop s) = Inr (stop s))"
  by (simp add: fire_after_stop) (simp add: stop_closed stopEvents_def since_def map_of_filter_out)

theorem stop_cancels_pending_sleeps_witness:
  "0 \<in> set (activeTimeouts sleeping)
   \<and> activeTimeouts (stop sleeping) = []
   \<and> timers (stop sleeping) = []
   \<and> resolved (stop sleeping) = []
   \<and> fire dryEnv 0 (stop sleeping) = Inr (stop sleeping)"
  using stop_cancels_pending_sleeps [of sleeping dryEnv]
  by (simp add: sleeping_state)

end
